theory Spec2Isabelle
  imports Complex_Main "HOL-Library.Multiset"
begin

section \<open>WordSeek: the game session engine of \<^verbatim>\<open>B.py\<close>\<close>

text \<open>
  The repository holds two variants of one chat game: \<^verbatim>\<open>B.py\<close> (document store,
  cache-backed rate limiter, teams, bans, achievements) and \<^verbatim>\<open>wordseek.py\<close> (embedded
  relational store, reduced feature set). The definitions below follow \<^verbatim>\<open>B.py\<close>, the
  superset; \<^verbatim>\<open>get_hint\<close> is the same text in both files.

  The definitions of \<^verbatim>\<open>wordseek.py\<close> that differ carry the prefix \<open>ws_\<close>.

  A string is a \<open>char list\<close>, one \<open>char\<close> for each code point below 256; text with
  other code points is outside the model. Replies to the chat are represented by the
  value a handler returns, not by their localized text.
\<close>

subsection \<open>Exceptions\<close>

datatype py_error =
    IndexError | KeyError | TypeError | ValueError | AttributeError | OverflowError
  | OperationFailure | InvalidDocument | OperationalError

subsection \<open>The hint engine: \<^verbatim>\<open>get_hint\<close>\<close>

text \<open>
  \<^verbatim>\<open>
  def get_hint(guess: str, target: str) -> str:
      hint = []
      target_list = list(target)
      for i in range(len(guess)):
          if guess[i] == target[i]:
              hint.append(GREEN);  target_list[i] = None
          elif guess[i] in target_list:
              hint.append(YELLOW); target_list[target_list.index(guess[i])] = None
          else:
              hint.append(RED)
      return "".join(hint)
  \<close>
  The three squares are the constructors \<open>Correct\<close> (green), \<open>Present\<close> (yellow) and
  \<open>Absent\<close> (red); the joined string is the list of marks. \<open>target_list\<close> holds
  \<open>Some c\<close> for a letter and \<open>None\<close> for Python's \<open>None\<close>. \<open>target[i]\<close> raises
  \<open>IndexError\<close> when the target is shorter than the guess.
\<close>

datatype mark = Correct | Present | Absent

fun py_index :: "'a \<Rightarrow> 'a list \<Rightarrow> nat" where
  "py_index x [] = 0"
| "py_index x (y # ys) = (if x = y then 0 else Suc (py_index x ys))"

fun hint_loop :: "string \<Rightarrow> nat \<Rightarrow> string \<Rightarrow> char option list \<Rightarrow> py_error + mark list" where
  "hint_loop [] i target target_list = Inr []"
| "hint_loop (c # rest) i target target_list =
     (if length target \<le> i then Inl IndexError
      else if c = target ! i then
        (case hint_loop rest (Suc i) target (target_list[i := None]) of
           Inl e \<Rightarrow> Inl e
         | Inr hint \<Rightarrow> Inr (Correct # hint))
      else if Some c \<in> set target_list then
        (case hint_loop rest (Suc i) target
                (target_list[py_index (Some c) target_list := None]) of
           Inl e \<Rightarrow> Inl e
         | Inr hint \<Rightarrow> Inr (Present # hint))
      else
        (case hint_loop rest (Suc i) target target_list of
           Inl e \<Rightarrow> Inl e
         | Inr hint \<Rightarrow> Inr (Absent # hint)))"

definition get_hint :: "string \<Rightarrow> string \<Rightarrow> py_error + mark list" where
  "get_hint guess target = hint_loop guess 0 target (map Some target)"

subsection \<open>The two-pass algorithm of the specification\<close>

text \<open>
  Written from the specification's words, to compare with \<open>get_hint\<close>. Pass 1 marks every
  position where guess and target agree and consumes that target letter: the pool is the
  target letters at the other positions. Pass 2 walks the positions left to right; a
  position not marked \<open>Correct\<close> is \<open>Present\<close> when its letter is still in the pool, and
  then one occurrence leaves the pool; otherwise it is \<open>Absent\<close>.
\<close>

definition unconsumed_pool :: "string \<Rightarrow> string \<Rightarrow> char list" where
  "unconsumed_pool guess target = map snd (filter (\<lambda>(g, t). g \<noteq> t) (zip guess target))"

fun second_pass :: "(char \<times> char) list \<Rightarrow> char list \<Rightarrow> mark list" where
  "second_pass [] pool = []"
| "second_pass ((g, t) # rest) pool =
     (if g = t then Correct # second_pass rest pool
      else if g \<in> set pool then Present # second_pass rest (remove1 g pool)
      else Absent # second_pass rest pool)"

definition hint_two_pass :: "string \<Rightarrow> string \<Rightarrow> mark list" where
  "hint_two_pass guess target = second_pass (zip guess target) (unconsumed_pool guess target)"

subsection \<open>Strings: \<^verbatim>\<open>lower\<close>, \<^verbatim>\<open>strip\<close>, \<^verbatim>\<open>isalpha\<close>, \<^verbatim>\<open>int\<close>\<close>

text \<open>
  Python's string methods on code points below 256. \<open>str.lower()\<close> maps \<open>A..Z\<close> and the
  capital letters \<open>0xC0..0xD6\<close>, \<open>0xD8..0xDE\<close> to the letter 32 places up and leaves every
  other character. \<open>str.strip()\<close> removes the characters for which \<open>str.isspace\<close> holds:
  tab, line feed, vertical tab, form feed, carriage return, the four separators
  \<open>0x1C..0x1F\<close>, the space, \<open>0x85\<close> and \<open>0xA0\<close>. \<open>str.isalpha\<close> holds of a non-empty
  string of letters: \<open>A..Z\<close>, \<open>a..z\<close>, \<open>0xAA\<close>, \<open>0xB5\<close>, \<open>0xBA\<close>, \<open>0xC0..0xD6\<close>,
  \<open>0xD8..0xF6\<close> and \<open>0xF8..0xFF\<close>.
\<close>

definition ascii_uppercase :: string where
  "ascii_uppercase = ''ABCDEFGHIJKLMNOPQRSTUVWXYZ''"

definition ascii_lowercase :: string where
  "ascii_lowercase = ''abcdefghijklmnopqrstuvwxyz''"

definition latin_uppercase :: string where
  "latin_uppercase =
     [CHR 0xC0, CHR 0xC1, CHR 0xC2, CHR 0xC3, CHR 0xC4, CHR 0xC5, CHR 0xC6, CHR 0xC7,
      CHR 0xC8, CHR 0xC9, CHR 0xCA, CHR 0xCB, CHR 0xCC, CHR 0xCD, CHR 0xCE, CHR 0xCF,
      CHR 0xD0, CHR 0xD1, CHR 0xD2, CHR 0xD3, CHR 0xD4, CHR 0xD5, CHR 0xD6,
      CHR 0xD8, CHR 0xD9, CHR 0xDA, CHR 0xDB, CHR 0xDC, CHR 0xDD, CHR 0xDE]"

definition latin_lowercase :: string where
  "latin_lowercase =
     [CHR 0xE0, CHR 0xE1, CHR 0xE2, CHR 0xE3, CHR 0xE4, CHR 0xE5, CHR 0xE6, CHR 0xE7,
      CHR 0xE8, CHR 0xE9, CHR 0xEA, CHR 0xEB, CHR 0xEC, CHR 0xED, CHR 0xEE, CHR 0xEF,
      CHR 0xF0, CHR 0xF1, CHR 0xF2, CHR 0xF3, CHR 0xF4, CHR 0xF5, CHR 0xF6,
      CHR 0xF8, CHR 0xF9, CHR 0xFA, CHR 0xFB, CHR 0xFC, CHR 0xFD, CHR 0xFE]"

definition latin_other_letters :: string where
  "latin_other_letters = [CHR 0xAA, CHR 0xB5, CHR 0xBA, CHR 0xDF, CHR 0xFF]"

definition char_lower :: "char \<Rightarrow> char" where
  "char_lower c =
     (case map_of (zip (ascii_uppercase @ latin_uppercase) (ascii_lowercase @ latin_lowercase)) c of
        None \<Rightarrow> c | Some l \<Rightarrow> l)"

definition py_lower :: "string \<Rightarrow> string" where
  "py_lower s = map char_lower s"

definition whitespace :: "char list" where
  "whitespace = [CHR 0x09, CHR 0x0A, CHR 0x0B, CHR 0x0C, CHR 0x0D,
                 CHR 0x1C, CHR 0x1D, CHR 0x1E, CHR 0x1F, CHR 0x20, CHR 0x85, CHR 0xA0]"

definition py_strip :: "string \<Rightarrow> string" where
  "py_strip s = rev (dropWhile (\<lambda>c. c \<in> set whitespace)
                       (rev (dropWhile (\<lambda>c. c \<in> set whitespace) s)))"

definition letters :: "char list" where
  "letters = ascii_lowercase @ ascii_uppercase @ latin_uppercase @ latin_lowercase @
             latin_other_letters"

definition py_isalpha :: "string \<Rightarrow> bool" where
  "py_isalpha s = (s \<noteq> [] \<and> list_all (\<lambda>c. c \<in> set letters) s)"

text \<open>
  \<open>int(s)\<close>: surrounding whitespace is stripped; then an optional sign and decimal
  digits, where single underscores may stand between digits. Anything else raises
  \<open>ValueError\<close>, here \<open>None\<close>.
\<close>

definition digit_value :: "char \<Rightarrow> int option" where
  "digit_value c = map_of (zip ''0123456789'' [0, 1, 2, 3, 4, 5, 6, 7, 8, 9]) c"

fun digits_value :: "int \<Rightarrow> string \<Rightarrow> int option" where
  "digits_value acc [] = Some acc"
| "digits_value acc (c # cs) =
     (if c = CHR ''_'' then
        (case cs of
           [] \<Rightarrow> None
         | d # ds \<Rightarrow> (case digit_value d of
                        None \<Rightarrow> None
                      | Some v \<Rightarrow> digits_value (10 * acc + v) ds))
      else (case digit_value c of
              None \<Rightarrow> None
            | Some v \<Rightarrow> digits_value (10 * acc + v) cs))"

definition unsigned_value :: "string \<Rightarrow> int option" where
  "unsigned_value s =
     (case s of
        [] \<Rightarrow> None
      | c # cs \<Rightarrow> (case digit_value c of
                     None \<Rightarrow> None
                   | Some v \<Rightarrow> digits_value v cs))"

definition py_int :: "string \<Rightarrow> int option" where
  "py_int s =
     (case py_strip s of
        [] \<Rightarrow> None
      | c # cs \<Rightarrow>
          if c = CHR ''-'' then map_option uminus (unsigned_value cs)
          else if c = CHR ''+'' then unsigned_value cs
          else unsigned_value (c # cs))"

subsection \<open>Documents and collections\<close>

text \<open>
  A settings dictionary maps a key to an integer or a string: \<^verbatim>\<open>/settings\<close> stores an
  \<open>int\<close> under \<open>max_guesses\<close>, \<open>length\<close> and \<open>timeout\<close> and the argument text under any
  other key.
\<close>

datatype pyval = IntV int | StrV string

type_synonym settings_dict = "string \<rightharpoonup> pyval"

definition DEFAULT_SETTINGS :: settings_dict where
  "DEFAULT_SETTINGS =
     [''max_guesses'' \<mapsto> IntV 30,
      ''word_length'' \<mapsto> IntV 5,
      ''timeout'' \<mapsto> IntV 3600,
      ''theme'' \<mapsto> StrV ''default'',
      ''mode'' \<mapsto> StrV ''standard'']"

text \<open>
  A document of the collection \<open>games\<close> as \<open>find_one\<close> returns it, found by its
  \<open>chat_id\<close>. A key the document does not hold is \<open>None\<close>: the upsert of
  \<^verbatim>\<open>update_settings\<close> inserts a document that holds \<open>settings\<close> only. The store keeps
  arrays, and the driver returns an array as a Python \<open>list\<close>: \<open>players\<close>, \<open>banned\<close> and
  the members of a team are lists.
\<close>

record game =
  word :: "string option"
  guesses :: "(int \<times> string) list option"
  players :: "int list option"
  teams :: "(string \<rightharpoonup> int list) option"
  start_time :: "real option"
  settings :: settings_dict
  banned :: "int list option"

text \<open>A document of the collection \<open>stats\<close>, found by its \<open>user_id\<close>.\<close>

record stats_doc =
  games_played :: "int option"
  wins :: "int option"
  total_guesses :: "int option"
  achievements :: "string list option"

text \<open>The document of the collection \<open>bot_stats\<close> with \<open>_id\<close> 1.\<close>

record bot_stats_doc =
  games_started :: "int option"
  guesses_made :: "int option"
  last_updated :: "real option"

text \<open>
  A document of the collection \<open>scores\<close>. \<^verbatim>\<open>update_score\<close> writes the paths
  \<open>scores.<chat_id>.<period>\<close>, \<open>global.<period>\<close> and \<open>teams.<team>.score\<close>: under
  \<open>scores\<close> the keys are chat ids (as text, here the integer itself), each holding the
  counters of that chat by period name.
\<close>

record score_doc =
  user_id :: int
  scores :: "int \<rightharpoonup> (string \<rightharpoonup> int)"
  global :: "string \<rightharpoonup> int"
  team_score :: "string \<rightharpoonup> int"

text \<open>
  The process state: the word list fetched at start-up, the rate limiter (the key-value
  cache as the expiry time of each player's key, or \<open>None\<close> when \<open>redis_client\<close> is
  \<open>None\<close>; and the in-process dictionary), and the collections.
\<close>

record world =
  WORDS :: "string list"
  redis_client :: "(int \<rightharpoonup> real) option"
  user_last_guess :: "int \<rightharpoonup> real"
  games_coll :: "int \<rightharpoonup> game"
  scores_coll :: "score_doc list"
  stats_coll :: "int \<rightharpoonup> stats_doc"
  bot_stats_coll :: "bot_stats_doc option"

definition get_default :: "'a option \<Rightarrow> 'a \<Rightarrow> 'a" where
  "get_default field d = (case field of None \<Rightarrow> d | Some v \<Rightarrow> v)"

text \<open>\<open>$inc\<close>: a counter that does not exist starts at the increment.\<close>

definition inc :: "int option \<Rightarrow> int \<Rightarrow> int option" where
  "inc field n = Some (get_default field 0 + n)"

definition inc_key :: "('k \<rightharpoonup> int) \<Rightarrow> 'k \<Rightarrow> int \<Rightarrow> ('k \<rightharpoonup> int)" where
  "inc_key m k n = m(k \<mapsto> get_default (m k) 0 + n)"

definition empty_stats :: stats_doc where
  "empty_stats = \<lparr>games_played = None, wins = None, total_guesses = None, achievements = None\<rparr>"

definition find_stats :: "world \<Rightarrow> int \<Rightarrow> stats_doc" where
  "find_stats w uid = get_default (stats_coll w uid) empty_stats"

definition empty_scores :: "int \<Rightarrow> score_doc" where
  "empty_scores uid = \<lparr>user_id = uid, scores = Map.empty, global = Map.empty, team_score = Map.empty\<rparr>"

text \<open>
  \<open>update_one({"user_id": uid}, update, upsert=True)\<close> on \<open>scores\<close>: the first document
  of the player is updated; when there is none, a new one is inserted.
\<close>

fun update_one_score :: "int \<Rightarrow> (score_doc \<Rightarrow> score_doc) \<Rightarrow> score_doc list \<Rightarrow> score_doc list" where
  "update_one_score uid f [] = [f (empty_scores uid)]"
| "update_one_score uid f (d # ds) =
     (if user_id d = uid then f d # ds else d # update_one_score uid f ds)"

fun find_score :: "int \<Rightarrow> score_doc list \<Rightarrow> score_doc option" where
  "find_score uid [] = None"
| "find_score uid (d # ds) = (if user_id d = uid then Some d else find_score uid ds)"

subsection \<open>The score ledger: \<^verbatim>\<open>update_score\<close>, \<^verbatim>\<open>update_stats\<close>\<close>

text \<open>
  What the code reads of a \<open>datetime\<close>: the calendar date, the month number and the ISO
  week number \<open>isocalendar().week\<close>, which the standard library computes from the date:
  \<^verbatim>\<open>
  def _days_before_year(year):
      y = year - 1
      return y*365 + y//4 - y//100 + y//400
  def _days_before_month(year, month):
      return _DAYS_BEFORE_MONTH[month] + (month > 2 and _is_leap(year))
  def _ymd2ord(year, month, day):
      return _days_before_year(year) + _days_before_month(year, month) + day
  def _isoweek1monday(year):
      firstday = _ymd2ord(year, 1, 1)
      firstweekday = (firstday + 6) % 7
      week1monday = firstday - firstweekday
      if firstweekday > THURSDAY:          # THURSDAY = 3
          week1monday += 7
      return week1monday
  def isocalendar(self):
      year = self._year
      week1monday = _isoweek1monday(year)
      today = _ymd2ord(self._year, self._month, self._day)
      week, day = divmod(today - week1monday, 7)
      if week < 0:
          year -= 1
          week1monday = _isoweek1monday(year)
          week, day = divmod(today - week1monday, 7)
      elif week >= 52:
          if today >= _isoweek1monday(year+1):
              year += 1
              week = 0
      return (year, week+1, day+1)
  \<close>
  A \<open>datetime\<close> holds a date of the calendar (month 1 to 12).
\<close>

record datetime =
  year :: int
  month :: int
  day :: int

definition date :: "datetime \<Rightarrow> int \<times> int \<times> int" where
  "date t = (year t, month t, day t)"

definition is_leap :: "int \<Rightarrow> bool" where
  "is_leap y = (if y mod 4 = 0 then (if y mod 100 = 0 then y mod 400 = 0 else True) else False)"

definition days_before_year :: "int \<Rightarrow> int" where
  "days_before_year y = (y - 1) * 365 + (y - 1) div 4 - (y - 1) div 100 + (y - 1) div 400"

definition DAYS_BEFORE_MONTH :: "int list" where
  "DAYS_BEFORE_MONTH = [0, 31, 59, 90, 120, 151, 181, 212, 243, 273, 304, 334]"

definition days_before_month :: "int \<Rightarrow> int \<Rightarrow> int" where
  "days_before_month y m =
     (if 1 \<le> m \<and> m \<le> 12 then DAYS_BEFORE_MONTH ! nat (m - 1) else 0) +
     (if m > 2 \<and> is_leap y then 1 else 0)"

definition ymd2ord :: "int \<Rightarrow> int \<Rightarrow> int \<Rightarrow> int" where
  "ymd2ord y m d = days_before_year y + days_before_month y m + d"

definition isoweek1monday :: "int \<Rightarrow> int" where
  "isoweek1monday y =
     (let firstday = ymd2ord y 1 1;
          firstweekday = (firstday + 6) mod 7;
          week1monday = firstday - firstweekday
      in if firstweekday > 3 then week1monday + 7 else week1monday)"

definition iso_week :: "datetime \<Rightarrow> int" where
  "iso_week t =
     (let today = ymd2ord (year t) (month t) (day t);
          week = (today - isoweek1monday (year t)) div 7
      in if week < 0 then (today - isoweek1monday (year t - 1)) div 7 + 1
         else if week \<ge> 52 then
           (if today \<ge> isoweek1monday (year t + 1) then 1 else week + 1)
         else week + 1)"

text \<open>
  \<^verbatim>\<open>
  def update_score(user_id, chat_id, mode, team=None):
      now = datetime.now()
      update = {"$inc": {
          f"scores.{chat_id}.all_time": 1,
          f"scores.{chat_id}.today": 1 if now.date() == datetime.now().date() else 0,
          f"scores.{chat_id}.week": 1 if now.isocalendar().week == datetime.now().isocalendar().week else 0,
          f"scores.{chat_id}.month": 1 if now.month == datetime.now().month else 0,
          f"global.all_time": 1,
          f"global.today": 1 if now.date() == datetime.now().date() else 0,
          f"global.week": 1 if now.isocalendar().week == datetime.now().isocalendar().week else 0,
          f"global.month": 1 if now.month == datetime.now().month else 0 }}
      if mode == "team" and team:
          update["$inc"][f"teams.{team}.score"] = 1
      scores_coll.update_one({"user_id": user_id}, update, upsert=True)
      stats_coll.update_one({"user_id": user_id}, {"$inc": {"wins": 1}}, upsert=True)
  \<close>
  The function reads the wall clock seven times: \<open>clock 0\<close> is \<open>now\<close>, and \<open>clock 1\<close> to
  \<open>clock 6\<close> are the later calls of \<open>datetime.now()\<close>, in the order the dictionary is
  evaluated.
\<close>

definition same_day :: "datetime \<Rightarrow> datetime \<Rightarrow> int" where
  "same_day now later = (if date now = date later then 1 else 0)"

definition same_week :: "datetime \<Rightarrow> datetime \<Rightarrow> int" where
  "same_week now later = (if iso_week now = iso_week later then 1 else 0)"

definition same_month :: "datetime \<Rightarrow> datetime \<Rightarrow> int" where
  "same_month now later = (if month now = month later then 1 else 0)"

definition inc_buckets :: "(string \<rightharpoonup> int) \<Rightarrow> int \<Rightarrow> int \<Rightarrow> int \<Rightarrow> (string \<rightharpoonup> int)" where
  "inc_buckets b d w m =
     inc_key (inc_key (inc_key (inc_key b ''all_time'' 1) ''today'' d) ''week'' w) ''month'' m"

definition score_update :: "int \<Rightarrow> pyval \<Rightarrow> string option \<Rightarrow> (nat \<Rightarrow> datetime) \<Rightarrow> score_doc \<Rightarrow> score_doc" where
  "score_update chat_id mode team clock d =
     (let now = clock 0 in
      d\<lparr>scores := (scores d)(chat_id \<mapsto>
                     inc_buckets (get_default (scores d chat_id) Map.empty)
                       (same_day now (clock 1)) (same_week now (clock 2))
                       (same_month now (clock 3))),
        global := inc_buckets (global d)
                    (same_day now (clock 4)) (same_week now (clock 5))
                    (same_month now (clock 6)),
        team_score := (case team of
                         None \<Rightarrow> team_score d
                       | Some t \<Rightarrow> if mode = StrV ''team'' \<and> t \<noteq> []
                                  then inc_key (team_score d) t 1 else team_score d)\<rparr>)"

definition update_score :: "world \<Rightarrow> int \<Rightarrow> int \<Rightarrow> pyval \<Rightarrow> string option \<Rightarrow> (nat \<Rightarrow> datetime) \<Rightarrow> world" where
  "update_score w uid chat_id mode team clock =
     w\<lparr>scores_coll := update_one_score uid (score_update chat_id mode team clock) (scores_coll w),
       stats_coll := (stats_coll w)(uid \<mapsto>
                        (find_stats w uid)\<lparr>wins := inc (wins (find_stats w uid)) 1\<rparr>)\<rparr>"

text \<open>
  \<^verbatim>\<open>
  def update_stats(user_id, guesses):
      stats_coll.update_one({"user_id": user_id},
          {"$inc": {"games_played": 1, "total_guesses": guesses}}, upsert=True)
      bot_stats_coll.update_one({"_id": 1},
          {"$inc": {"guesses_made": guesses, "games_started": 0},
           "$set": {"last_updated": time.time()}}, upsert=True)
  \<close>
\<close>

definition empty_bot_stats :: bot_stats_doc where
  "empty_bot_stats = \<lparr>games_started = None, guesses_made = None, last_updated = None\<rparr>"

definition update_stats :: "world \<Rightarrow> int \<Rightarrow> int \<Rightarrow> real \<Rightarrow> world" where
  "update_stats w uid n t =
     (let s = find_stats w uid;
          b = get_default (bot_stats_coll w) empty_bot_stats
      in w\<lparr>stats_coll := (stats_coll w)(uid \<mapsto>
                s\<lparr>games_played := inc (games_played s) 1,
                  total_guesses := inc (total_guesses s) n\<rparr>),
            bot_stats_coll := Some (b\<lparr>guesses_made := inc (guesses_made b) n,
                                      games_started := inc (games_started b) 0,
                                      last_updated := Some t\<rparr>)\<rparr>)"

text \<open>
  The profile's average (\<^verbatim>\<open>profile_command\<close>):
  \<open>total_guesses / games_played if games_played > 0 else 0\<close>, as the exact quotient.
\<close>

definition avg_guesses :: "stats_doc \<Rightarrow> real" where
  "avg_guesses s =
     (if get_default (games_played s) 0 > 0
      then real_of_int (get_default (total_guesses s) 0) / real_of_int (get_default (games_played s) 0)
      else 0)"

subsection \<open>Achievements: \<^verbatim>\<open>check_achievements\<close>\<close>

text \<open>
  \<^verbatim>\<open>
  ACHIEVEMENTS = {
      "first_win": {"name": "First Win", "condition": lambda stats: stats.get("wins", 0) >= 1},
      "ten_wins": {"name": "Deca-Winner", "condition": lambda stats: stats.get("wins", 0) >= 10},
      "hundred_guesses": {"name": "Guess Master",
                          "condition": lambda stats: stats.get("total_guesses", 0) >= 100}}

  def check_achievements(user_id):
      user_stats = stats_coll.find_one({"user_id": user_id}) or {}
      unlocked = []
      for ach_id, ach in ACHIEVEMENTS.items():
          if ach["condition"](user_stats) and ach_id not in user_stats.get("achievements", []):
              unlocked.append(ach["name"])
              stats_coll.update_one({"user_id": user_id},
                                    {"$addToSet": {"achievements": ach_id}}, upsert=True)
      return unlocked
  \<close>
  An achievement is its id, its name and its condition. The loop tests the snapshot
  \<open>user_stats\<close> read before it, and writes to the collection.
\<close>

type_synonym achievement = "string \<times> string \<times> (stats_doc \<Rightarrow> bool)"

definition ACHIEVEMENTS :: "achievement list" where
  "ACHIEVEMENTS =
     [(''first_win'', ''First Win'', \<lambda>stats. get_default (wins stats) 0 \<ge> 1),
      (''ten_wins'', ''Deca-Winner'', \<lambda>stats. get_default (wins stats) 0 \<ge> 10),
      (''hundred_guesses'', ''Guess Master'', \<lambda>stats. get_default (total_guesses stats) 0 \<ge> 100)]"

definition add_to_set :: "string list option \<Rightarrow> string \<Rightarrow> string list option" where
  "add_to_set field x =
     (case field of
        None \<Rightarrow> Some [x]
      | Some xs \<Rightarrow> if x \<in> set xs then Some xs else Some (xs @ [x]))"

definition unlock :: "world \<Rightarrow> int \<Rightarrow> string \<Rightarrow> world" where
  "unlock w uid ach_id =
     w\<lparr>stats_coll := (stats_coll w)(uid \<mapsto>
          (find_stats w uid)\<lparr>achievements := add_to_set (achievements (find_stats w uid)) ach_id\<rparr>)\<rparr>"

fun achievements_loop :: "achievement list \<Rightarrow> stats_doc \<Rightarrow> int \<Rightarrow> world \<Rightarrow> string list \<Rightarrow> world \<times> string list" where
  "achievements_loop [] user_stats uid w unlocked = (w, unlocked)"
| "achievements_loop ((ach_id, name, condition) # rest) user_stats uid w unlocked =
     (if condition user_stats \<and> ach_id \<notin> set (get_default (achievements user_stats) [])
      then achievements_loop rest user_stats uid (unlock w uid ach_id) (unlocked @ [name])
      else achievements_loop rest user_stats uid w unlocked)"

definition check_achievements :: "world \<Rightarrow> int \<Rightarrow> world \<times> string list" where
  "check_achievements w uid = achievements_loop ACHIEVEMENTS (find_stats w uid) uid w []"

subsection \<open>The leaderboard: \<^verbatim>\<open>get_leaderboard\<close>\<close>

text \<open>
  \<^verbatim>\<open>
  def get_leaderboard(scope, chat_id, period, page=1, per_page=5):
      pipeline = [{"$match": {f"{scope}.{period}": {"$gt": 0}}},
                  {"$sort": {f"{scope}.{period}": -1}},
                  {"$skip": (page - 1) * per_page},
                  {"$limit": per_page}]
      if scope == "scores":
          pipeline[0]["$match"]["scores.chat_id"] = chat_id
      leaderboard = []
      for user in scores_coll.aggregate(pipeline):
          try:
              user_info = app.get_users(user["user_id"])
              leaderboard.append((user_info.first_name, user[scope][period]))
          except Exception as e:
              logger.error(...)
      total = scores_coll.count_documents({f"{scope}.{period}": {"$gt": 0}})
      result = header
      for i, (name, score) in enumerate(leaderboard, 1 + (page - 1) * per_page):
          result += f"{i}. {name}: {score}\n"
      if not leaderboard: result = "No scores yet!"
      buttons = []
      if page > 1: buttons.append(Previous)
      if total > page * per_page: buttons.append(Next)
      ...
  \<close>
  \<open>field_at d scope period\<close> is the number at the path \<open><scope>.<period>\<close> of a
  document. Under \<open>global\<close> the keys are period names. Under \<open>scores\<close> the keys are chat
  ids, each holding a sub-document, so the paths \<open>scores.<period>\<close> and
  \<open>scores.chat_id\<close> hold no number in any document \<^verbatim>\<open>update_score\<close> writes; no other
  scope is a key of the document.

  The result is the numbered lines \<open>(rank, name, score)\<close> and the two buttons
  \<open>(Previous, Next)\<close>; no line stands for "No scores yet!". \<open>get_users\<close> is the
  messaging platform's lookup, \<open>None\<close> where it raises. The store refuses a negative
  \<open>$skip\<close> and a \<open>$limit\<close> that is not positive. \<open>$sort\<close> is taken as a stable sort.
\<close>

definition field_at :: "score_doc \<Rightarrow> string \<Rightarrow> string \<Rightarrow> int option" where
  "field_at d scope period = (if scope = ''global'' then global d period else None)"

definition gt_zero :: "int option \<Rightarrow> bool" where
  "gt_zero field = (case field of None \<Rightarrow> False | Some n \<Rightarrow> 0 < n)"

definition matches :: "string \<Rightarrow> int \<Rightarrow> string \<Rightarrow> score_doc \<Rightarrow> bool" where
  "matches scope chat_id period d =
     (gt_zero (field_at d scope period) \<and>
      (if scope = ''scores'' then field_at d ''scores'' ''chat_id'' = Some chat_id else True))"

definition sort_desc :: "string \<Rightarrow> string \<Rightarrow> score_doc list \<Rightarrow> score_doc list" where
  "sort_desc scope period ds = sort_key (\<lambda>d. - get_default (field_at d scope period) 0) ds"

definition ranking :: "world \<Rightarrow> string \<Rightarrow> int \<Rightarrow> string \<Rightarrow> score_doc list" where
  "ranking w scope chat_id period =
     sort_desc scope period (filter (matches scope chat_id period) (scores_coll w))"

definition aggregate :: "world \<Rightarrow> string \<Rightarrow> int \<Rightarrow> string \<Rightarrow> int \<Rightarrow> int \<Rightarrow> py_error + score_doc list" where
  "aggregate w scope chat_id period page per_page =
     (if (page - 1) * per_page < 0 \<or> per_page \<le> 0 then Inl OperationFailure
      else Inr (take (nat per_page)
                  (drop (nat ((page - 1) * per_page)) (ranking w scope chat_id period))))"

fun lookup_users :: "(int \<rightharpoonup> string) \<Rightarrow> string \<Rightarrow> string \<Rightarrow> score_doc list \<Rightarrow> (string \<times> int) list" where
  "lookup_users get_users scope period [] = []"
| "lookup_users get_users scope period (user # rest) =
     (case get_users (user_id user) of
        None \<Rightarrow> lookup_users get_users scope period rest
      | Some first_name \<Rightarrow>
          (case field_at user scope period of
             None \<Rightarrow> lookup_users get_users scope period rest
           | Some score \<Rightarrow> (first_name, score) # lookup_users get_users scope period rest))"

fun enumerate :: "int \<Rightarrow> 'a list \<Rightarrow> (int \<times> 'a) list" where
  "enumerate i [] = []"
| "enumerate i (x # xs) = (i, x) # enumerate (i + 1) xs"

definition count_documents :: "world \<Rightarrow> string \<Rightarrow> string \<Rightarrow> int" where
  "count_documents w scope period =
     int (length (filter (\<lambda>d. gt_zero (field_at d scope period)) (scores_coll w)))"

definition get_leaderboard ::
  "world \<Rightarrow> (int \<rightharpoonup> string) \<Rightarrow> string \<Rightarrow> int \<Rightarrow> string \<Rightarrow> int \<Rightarrow> int
     \<Rightarrow> py_error + ((int \<times> string \<times> int) list \<times> bool \<times> bool)" where
  "get_leaderboard w get_users scope chat_id period page per_page =
     (case aggregate w scope chat_id period page per_page of
        Inl e \<Rightarrow> Inl e
      | Inr users \<Rightarrow>
          (let leaderboard = lookup_users get_users scope period users;
               total = count_documents w scope period
           in Inr (enumerate (1 + (page - 1) * per_page) leaderboard,
                   page > 1,
                   total > page * per_page)))"

subsection \<open>The word source: \<^verbatim>\<open>fetch_words\<close>\<close>

text \<open>
  \<^verbatim>\<open>
  def fetch_words(length=5, max_words=1000):
      try:
          response = requests.get(...)
          words = [word["word"].lower() for word in response.json()
                   if len(word["word"]) == length and word["word"].isalpha()]
          return words
      except Exception as e:
          return ["apple", "brave", "cloud", "dream", "eagle", "flame", "grape", "house",
                  "jolly", "knife"]
  \<close>
  The answer of the service is the list of its \<open>word\<close> entries, or \<open>None\<close> when the
  request or the decoding raises.
\<close>

definition fallback_words :: "string list" where
  "fallback_words = [''apple'', ''brave'', ''cloud'', ''dream'', ''eagle'', ''flame'', ''grape'',
                     ''house'', ''jolly'', ''knife'']"

definition fetch_words :: "string list option \<Rightarrow> int \<Rightarrow> string list" where
  "fetch_words response len =
     (case response of
        None \<Rightarrow> fallback_words
      | Some entries \<Rightarrow>
          map py_lower (filter (\<lambda>word. int (length word) = len \<and> py_isalpha word) entries))"

text \<open>\<open>random.choice(seq)\<close> raises \<open>IndexError\<close> on an empty sequence; \<open>r\<close> is the draw.\<close>

definition random_choice :: "nat \<Rightarrow> 'a list \<Rightarrow> py_error + 'a" where
  "random_choice r seq = (if seq = [] then Inl IndexError else Inr (seq ! (r mod length seq)))"

subsection \<open>Replies\<close>

datatype reply =
    SlowDown
  | NoReply
  | YouAreBanned
  | InvalidGuess
  | NotValidWord
  | Win "string list"
  | GameOver string
  | GuessesLeft string "mark list" int
  | InvalidMode
  | GameInProgress
  | NewGameStarted
  | AdminOnly
  | Usage
  | InvalidSetting
  | SettingsUpdated settings_dict

subsection \<open>Creating a session: \<^verbatim>\<open>new_game\<close>\<close>

text \<open>
  \<^verbatim>\<open>
  async def new_game(client, message):
      ...
      mode = args[0] if args else "standard"
      if mode not in ["standard", "team", "competitive"]:
          await message.reply("Invalid mode! ..."); return
      if games_coll.find_one({"chat_id": chat_id}):
          await message.reply(LANGUAGES[lang]["game_in_progress"]); return
      settings = DEFAULT_SETTINGS.copy()
      settings["mode"] = mode
      word = random.choice(fetch_words(settings["word_length"]))
      game = {"chat_id": chat_id, "word": word, "guesses": [], "players": set(),
              "teams": {"team1": set(), "team2": set()} if mode == "team" else {},
              "start_time": time.time(), "settings": settings, "banned": set()}
      games_coll.insert_one(game)
      bot_stats_coll.update_one({"_id": 1}, {"$inc": {"games_started": 1}}, upsert=True)
      await message.reply(LANGUAGES[lang]["new_game"].format(...))
      ... (the reminder and the timeout are scheduled)
  \<close>
  The deferred reminder and timeout are not part of the model.

  \<open>py_game\<close> is the dictionary \<open>game\<close> as the handler builds it: \<open>players\<close>, \<open>banned\<close>
  and the members of a team are Python sets. The driver encodes a document before it
  sends it; it has no encoding for a \<open>set\<close> and raises \<open>InvalidDocument\<close>. Every
  \<open>py_game\<close> holds a set, so \<open>insert_one\<close> raises and stores nothing.
\<close>

record py_game =
  py_word :: string
  py_guesses :: "(int \<times> string) list"
  py_players :: "int set"
  py_teams :: "string \<rightharpoonup> int set"
  py_start_time :: real
  py_settings :: settings_dict
  py_banned :: "int set"

definition insert_one :: "world \<Rightarrow> int \<Rightarrow> py_game \<Rightarrow> py_error + world" where
  "insert_one w chat_id g = Inl InvalidDocument"

definition new_game ::
  "world \<Rightarrow> int \<Rightarrow> string list \<Rightarrow> string list option \<Rightarrow> nat \<Rightarrow> real \<Rightarrow> world \<times> (py_error + reply)" where
  "new_game w chat_id args response r now =
     (let mode = (case args of [] \<Rightarrow> ''standard'' | a # _ \<Rightarrow> a) in
      if mode \<notin> set [''standard'', ''team'', ''competitive''] then (w, Inr InvalidMode)
      else if games_coll w chat_id \<noteq> None then (w, Inr GameInProgress)
      else
        (let st = DEFAULT_SETTINGS(''mode'' \<mapsto> StrV mode) in
         case st ''word_length'' of
           None \<Rightarrow> (w, Inl KeyError)
         | Some (StrV v) \<Rightarrow> (w, Inl TypeError)
         | Some (IntV len) \<Rightarrow>
             (case random_choice r (fetch_words response len) of
                Inl e \<Rightarrow> (w, Inl e)
              | Inr target \<Rightarrow>
                  (let g = \<lparr>py_word = target, py_guesses = [], py_players = {},
                            py_teams = (if mode = ''team''
                                        then [''team1'' \<mapsto> {}, ''team2'' \<mapsto> {}]
                                        else Map.empty),
                            py_start_time = now, py_settings = st, py_banned = {}\<rparr>
                   in case insert_one w chat_id g of
                        Inl e \<Rightarrow> (w, Inl e)
                      | Inr w1 \<Rightarrow>
                          (let b = get_default (bot_stats_coll w1) empty_bot_stats
                           in (w1\<lparr>bot_stats_coll :=
                                     Some (b\<lparr>games_started := inc (games_started b) 1\<rparr>)\<rparr>,
                               Inr NewGameStarted))))))"

subsection \<open>Changing the settings: \<^verbatim>\<open>is_admin\<close>, \<^verbatim>\<open>update_settings\<close>\<close>

text \<open>
  \<^verbatim>\<open>
  def is_admin(chat_id, user_id, message):
      if message.chat.type == ChatType.PRIVATE:
          return True
      try:
          member = app.get_chat_member(chat_id, user_id)
          return member.status in ["administrator", "creator"]
      except Exception as e:
          logger.error(...)
          return False
  \<close>
  \<open>get_chat_member\<close> is a coroutine function, and \<open>is_admin\<close> calls it without
  \<open>await\<close> from a running handler: the call returns a coroutine object, reading its
  \<open>status\<close> raises \<open>AttributeError\<close>, and the \<open>except\<close> branch returns \<open>False\<close>.
\<close>

datatype chat_type = PRIVATE | BOT | GROUP | SUPERGROUP | CHANNEL

definition is_admin :: "chat_type \<Rightarrow> bool" where
  "is_admin t = (if t = PRIVATE then True else False)"

text \<open>
  \<^verbatim>\<open>
  @app.on_message(filters.command("settings") & filters.group)
  async def update_settings(client, message):
      ...
      if not is_admin(chat_id, user_id, message):
          await message.reply(LANGUAGES[lang]["admin_only"]); return
      args = message.command[1:]
      if len(args) != 2:
          await message.reply("Usage: ..."); return
      key, value = args
      try:
          if key in ["max_guesses", "length", "timeout"]:
              value = int(value)
              if value <= 0: raise ValueError
          elif key == "theme" and value not in ["default", "dark", "light"]:
              raise ValueError
      except ValueError:
          await message.reply("Invalid setting or value!"); return
      game = games_coll.find_one({"chat_id": chat_id})
      settings = game["settings"] if game else DEFAULT_SETTINGS.copy()
      settings[key] = value
      games_coll.update_one({"chat_id": chat_id}, {"$set": {"settings": settings}}, upsert=True)
      await message.reply(LANGUAGES[lang]["settings_updated"].format(settings=settings))
  \<close>
  \<open>filters.group\<close> passes the messages of a group or supergroup; for any other chat the
  handler is not called. With \<open>upsert=True\<close> the update inserts a document
  \<open>{chat_id, settings}\<close> when the chat has none. The driver raises \<open>OverflowError\<close> for
  an integer outside the 8-byte range.
\<close>

definition settings_only :: "settings_dict \<Rightarrow> game" where
  "settings_only st = \<lparr>word = None, guesses = None, players = None, teams = None,
                       start_time = None, settings = st, banned = None\<rparr>"

definition checked_value :: "string \<Rightarrow> string \<Rightarrow> pyval option" where
  "checked_value key v =
     (if key \<in> set [''max_guesses'', ''length'', ''timeout''] then
        (case py_int v of
           None \<Rightarrow> None
         | Some n \<Rightarrow> if n \<le> 0 then None else Some (IntV n))
      else if key = ''theme'' \<and> v \<notin> set [''default'', ''dark'', ''light''] then None
      else Some (StrV v))"

definition eight_bytes :: "pyval \<Rightarrow> bool" where
  "eight_bytes v =
     (case v of
        IntV n \<Rightarrow> - (2 ^ 63) \<le> n \<and> n \<le> 2 ^ 63 - 1
      | StrV s \<Rightarrow> True)"

definition update_settings :: "world \<Rightarrow> int \<Rightarrow> chat_type \<Rightarrow> string list \<Rightarrow> world \<times> (py_error + reply)" where
  "update_settings w chat_id ctype args =
     (if ctype \<notin> set [GROUP, SUPERGROUP] then (w, Inr NoReply)
      else if is_admin ctype then
        (case args of
           [key, v] \<Rightarrow>
             (case checked_value key v of
                None \<Rightarrow> (w, Inr InvalidSetting)
              | Some val \<Rightarrow>
                  if eight_bytes val then
                    (case games_coll w chat_id of
                       None \<Rightarrow>
                         (let st = DEFAULT_SETTINGS(key \<mapsto> val)
                          in (w\<lparr>games_coll := (games_coll w)(chat_id \<mapsto> settings_only st)\<rparr>,
                              Inr (SettingsUpdated st)))
                     | Some g \<Rightarrow>
                         (let st = (settings g)(key \<mapsto> val)
                          in (w\<lparr>games_coll := (games_coll w)(chat_id \<mapsto> g\<lparr>settings := st\<rparr>)\<rparr>,
                              Inr (SettingsUpdated st))))
                  else (w, Inl OverflowError))
         | _ \<Rightarrow> (w, Inr Usage))
      else (w, Inr AdminOnly))"

subsection \<open>Guessing: \<^verbatim>\<open>handle_guess\<close>\<close>

text \<open>
  \<^verbatim>\<open>
  RATE_LIMIT = 2
  async def handle_guess(client, message):
      ...
      guess = message.text.lower().strip()
      now = time.time()
      if redis_client:
          key = f"guess:{user_id}"
          if redis_client.get(key):
              await message.reply("Slow down! ..."); return
          redis_client.setex(key, RATE_LIMIT, 1)
      else:
          if user_id in user_last_guess and now - user_last_guess[user_id] < RATE_LIMIT:
              await message.reply("Slow down! ..."); return
          user_last_guess[user_id] = now
  \<close>
  A key of the cache is live until its expiry time; \<open>setex\<close> sets the expiry to
  \<open>RATE_LIMIT\<close> seconds from \<open>now\<close>. \<open>None\<close> is the rejection.
\<close>

definition RATE_LIMIT :: real where
  "RATE_LIMIT = 2"

definition rate_limit :: "world \<Rightarrow> int \<Rightarrow> real \<Rightarrow> world option" where
  "rate_limit w uid now =
     (case redis_client w of
        Some cache \<Rightarrow>
          if (case cache uid of None \<Rightarrow> False | Some expiry \<Rightarrow> now < expiry) then None
          else Some (w\<lparr>redis_client := Some (cache(uid \<mapsto> now + RATE_LIMIT))\<rparr>)
      | None \<Rightarrow>
          if (case user_last_guess w uid of None \<Rightarrow> False | Some t \<Rightarrow> now - t < RATE_LIMIT)
          then None
          else Some (w\<lparr>user_last_guess := (user_last_guess w)(uid \<mapsto> now)\<rparr>))"

text \<open>
  \<^verbatim>\<open>
      team = None
      if settings["mode"] == "team":
          team = "team1" if len(game["guesses"]) % 2 == 0 else "team2"
          game["teams"][team].add(user_id)
  \<close>
\<close>

definition assign_team :: "game \<Rightarrow> pyval \<Rightarrow> int \<Rightarrow> py_error + (string option \<times> game)" where
  "assign_team g mode uid =
     (if mode = StrV ''team'' then
        (case guesses g of
           None \<Rightarrow> Inl KeyError
         | Some gs \<Rightarrow>
             (let team = (if length gs mod 2 = 0 then ''team1'' else ''team2'') in
              case teams g of
                None \<Rightarrow> Inl KeyError
              | Some ts \<Rightarrow>
                  (case ts team of
                     None \<Rightarrow> Inl KeyError
                   | Some members \<Rightarrow> Inl AttributeError)))
      else Inr (None, g))"

text \<open>
  \<^verbatim>\<open>
      game["guesses"].append((user_id, guess))
      game["players"].add(user_id)
      games_coll.update_one({"chat_id": chat_id},
          {"$set": {"guesses": game["guesses"], "players": game["players"],
                    "teams": game["teams"]}})
  \<close>
  \<open>game\<close> is what \<open>find_one\<close> returned: \<open>game["players"]\<close> and the members of a team
  are lists, and a \<open>list\<close> has no method \<open>add\<close>. The call raises \<open>AttributeError\<close> before
  \<open>update_one\<close> is reached, here and in \<open>assign_team\<close>.
\<close>

definition record_guess :: "game \<Rightarrow> int \<Rightarrow> string \<Rightarrow> py_error + game" where
  "record_guess g uid guess =
     (case guesses g of
        None \<Rightarrow> Inl KeyError
      | Some gs \<Rightarrow>
          (case players g of
             None \<Rightarrow> Inl KeyError
           | Some ps \<Rightarrow> Inl AttributeError))"

text \<open>
  \<^verbatim>\<open>
      hint = get_hint(guess, game["word"])
      if guess == game["word"]:
          update_score(user_id, chat_id, settings["mode"], team)
          unlocked = check_achievements(user_id)
          games_coll.delete_one({"chat_id": chat_id})
          ... reply win, with the achievements unlocked; return
      if len(game["guesses"]) >= settings["max_guesses"]:
          games_coll.delete_one({"chat_id": chat_id})
          await message.reply(LANGUAGES[lang]["game_over"].format(word=game["word"])); return
      await message.reply(LANGUAGES[lang]["guesses_left"].format(
          guess=guess, hint=hint, left=settings["max_guesses"] - len(game["guesses"])))
  \<close>
  \<open>g\<close> is the local \<open>game\<close> after the guess was appended; comparing a length with a
  string raises \<open>TypeError\<close>.
\<close>

definition delete_game :: "world \<Rightarrow> int \<Rightarrow> world" where
  "delete_game w chat_id = w\<lparr>games_coll := (games_coll w)(chat_id := None)\<rparr>"

definition resolve ::
  "world \<Rightarrow> int \<Rightarrow> int \<Rightarrow> string \<Rightarrow> game \<Rightarrow> pyval \<Rightarrow> string option \<Rightarrow> (nat \<Rightarrow> datetime)
     \<Rightarrow> world \<times> (py_error + reply)" where
  "resolve w chat_id uid guess g mode team clock =
     (case word g of
        None \<Rightarrow> (w, Inl KeyError)
      | Some target \<Rightarrow>
          (case get_hint guess target of
             Inl e \<Rightarrow> (w, Inl e)
           | Inr hint \<Rightarrow>
               if guess = target then
                 (let w1 = update_score w uid chat_id mode team clock;
                      (w2, unlocked) = check_achievements w1 uid
                  in (delete_game w2 chat_id, Inr (Win unlocked)))
               else
                 (case guesses g of
                    None \<Rightarrow> (w, Inl KeyError)
                  | Some gs \<Rightarrow>
                      (case settings g ''max_guesses'' of
                         None \<Rightarrow> (w, Inl KeyError)
                       | Some (StrV v) \<Rightarrow> (w, Inl TypeError)
                       | Some (IntV max_guesses) \<Rightarrow>
                           if int (length gs) \<ge> max_guesses
                           then (delete_game w chat_id, Inr (GameOver target))
                           else (w, Inr (GuessesLeft guess hint
                                           (max_guesses - int (length gs))))))))"

text \<open>
  \<^verbatim>\<open>
      game = games_coll.find_one({"chat_id": chat_id})
      if not game: return
      if user_id in game.get("banned", set()):
          await message.reply("You are banned from this game!"); return
      settings = game["settings"]
      if len(guess) != settings["word_length"] or not guess.isalpha():
          await message.reply(LANGUAGES[lang]["invalid_guess"]...); return
      if guess not in WORDS:
          await message.reply(LANGUAGES[lang]["not_valid_word"]); return
      ... (team, append, update_one)
      update_stats(user_id, 1)
      ... (hint, win, game over, guesses left)
  \<close>
  \<open>now\<close> is the clock read of the rate limiter, \<open>t_stats\<close> the one of
  \<^verbatim>\<open>update_stats\<close>, \<open>clock\<close> the reads of \<^verbatim>\<open>update_score\<close>. An exception leaves the
  state as the writes before it made it. Python's \<open>or\<close> tests its second operand only
  when the first is false: the two tests of the guess are two branches.
\<close>

definition handle_guess ::
  "world \<Rightarrow> int \<Rightarrow> int \<Rightarrow> string \<Rightarrow> real \<Rightarrow> real \<Rightarrow> (nat \<Rightarrow> datetime) \<Rightarrow> world \<times> (py_error + reply)" where
  "handle_guess w chat_id uid text now t_stats clock =
     (let guess = py_strip (py_lower text) in
      case rate_limit w uid now of
        None \<Rightarrow> (w, Inr SlowDown)
      | Some w1 \<Rightarrow>
          (case games_coll w1 chat_id of
             None \<Rightarrow> (w1, Inr NoReply)
           | Some game \<Rightarrow>
               if uid \<in> set (get_default (banned game) []) then (w1, Inr YouAreBanned)
               else
                 (case settings game ''word_length'' of
                    None \<Rightarrow> (w1, Inl KeyError)
                  | Some word_length \<Rightarrow>
                      if IntV (int (length guess)) \<noteq> word_length then (w1, Inr InvalidGuess)
                      else if \<not> py_isalpha guess then (w1, Inr InvalidGuess)
                      else if guess \<notin> set (WORDS w1) then (w1, Inr NotValidWord)
                      else
                        (case settings game ''mode'' of
                           None \<Rightarrow> (w1, Inl KeyError)
                         | Some mode \<Rightarrow>
                             (case assign_team game mode uid of
                                Inl e \<Rightarrow> (w1, Inl e)
                              | Inr (team, game1) \<Rightarrow>
                                  (case record_guess game1 uid guess of
                                     Inl e \<Rightarrow> (w1, Inl e)
                                   | Inr game2 \<Rightarrow>
                                       (let w2 = w1\<lparr>games_coll := (games_coll w1)(chat_id \<mapsto> game2)\<rparr>;
                                            w3 = update_stats w2 uid 1 t_stats
                                        in resolve w3 chat_id uid guess game2 mode team clock)))))))"

text \<open>The replies to a guess that was appended to the log.\<close>

fun accepted :: "py_error + reply \<Rightarrow> bool" where
  "accepted (Inr (Win unlocked)) = True"
| "accepted (Inr (GameOver target)) = True"
| "accepted (Inr (GuessesLeft guess hint left)) = True"
| "accepted r = False"

fun is_win :: "py_error + reply \<Rightarrow> bool" where
  "is_win (Inr (Win unlocked)) = True"
| "is_win r = False"

fun is_game_over :: "py_error + reply \<Rightarrow> bool" where
  "is_game_over (Inr (GameOver target)) = True"
| "is_game_over r = False"

subsection \<open>The relational variant: \<^verbatim>\<open>wordseek.py\<close>\<close>

text \<open>
  \<^verbatim>\<open>wordseek.py\<close> keeps its state in the tables \<open>games\<close>, \<open>scores\<close>, \<open>stats\<close> and
  \<open>bot_stats\<close> of one database file; every function opens a connection of its own
  (\<open>get_db\<close>). A row of \<open>games\<close> holds \<open>guesses\<close>, \<open>players\<close> and \<open>settings\<close> as the
  text \<open>str(value)\<close>, read back with \<open>eval\<close>; the empty text stands for no guess and
  no player. The rows are modelled by the values themselves.
\<close>

definition WS_DEFAULT_SETTINGS :: settings_dict where
  "WS_DEFAULT_SETTINGS =
     [''max_guesses'' \<mapsto> IntV 30, ''word_length'' \<mapsto> IntV 5, ''timeout'' \<mapsto> IntV 3600]"

record ws_game =
  ws_word :: string
  ws_guesses :: "(int \<times> string) list"
  ws_players :: "int set"
  ws_start_time :: real
  ws_settings :: settings_dict

record ws_score_row =
  ws_today :: int
  ws_week :: int
  ws_month :: int
  ws_all_time :: int

record ws_stats_row =
  ws_games_played :: int
  ws_wins :: int
  ws_total_guesses :: int

record ws_bot_row =
  ws_games_started :: int
  ws_guesses_made :: int
  ws_last_updated :: real

record ws_world =
  ws_WORDS :: "string list"
  ws_user_last_guess :: "int \<rightharpoonup> real"
  ws_games :: "int \<rightharpoonup> ws_game"
  ws_scores :: "int \<times> int \<rightharpoonup> ws_score_row"
  ws_stats :: "int \<rightharpoonup> ws_stats_row"
  ws_bot_stats :: ws_bot_row

text \<open>
  \<^verbatim>\<open>
  def update_stats(user_id, guesses):
      conn = get_db()
      c = conn.cursor()
      c.execute("INSERT OR IGNORE INTO stats (user_id) VALUES (?)", (user_id,))
      c.execute("UPDATE stats SET games_played = games_played + 1, "
                "total_guesses = total_guesses + ? WHERE user_id = ?", (guesses, user_id))
      c.execute("UPDATE bot_stats SET guesses_made = guesses_made + ?, last_updated = ? "
                "WHERE id = 1", (guesses, time.time()))
      conn.commit()
      conn.close()
  \<close>
  The database allows one writer. A connection that has executed an \<open>UPDATE\<close> holds the
  write lock until it commits; the first write of another connection then waits for
  the timeout and raises \<open>OperationalError\<close> (database is locked). \<open>busy\<close> tells
  whether another connection holds an uncommitted write when the function is called.
\<close>

definition ws_update_stats :: "bool \<Rightarrow> ws_world \<Rightarrow> int \<Rightarrow> int \<Rightarrow> real \<Rightarrow> py_error + ws_world" where
  "ws_update_stats busy w uid n t =
     (if busy then Inl OperationalError
      else
        (let s = get_default (ws_stats w uid)
                   \<lparr>ws_games_played = 0, ws_wins = 0, ws_total_guesses = 0\<rparr>;
             b = ws_bot_stats w
         in Inr (w\<lparr>ws_stats := (ws_stats w)(uid \<mapsto>
                       s\<lparr>ws_games_played := ws_games_played s + 1,
                         ws_total_guesses := ws_total_guesses s + n\<rparr>),
                   ws_bot_stats := b\<lparr>ws_guesses_made := ws_guesses_made b + n,
                                     ws_last_updated := t\<rparr>\<rparr>)))"

text \<open>
  \<^verbatim>\<open>
  def update_score(user_id, chat_id):
      conn = get_db()
      c = conn.cursor()
      c.execute("INSERT OR IGNORE INTO scores (user_id, chat_id) VALUES (?, ?)", ...)
      c.execute("UPDATE scores SET all_time = all_time + 1,
                   today = today + CASE WHEN date('now') = date('now') THEN 1 ELSE 0 END,
                   week = week + CASE WHEN strftime('%W', 'now') = strftime('%W', 'now') ...,
                   month = month + CASE WHEN strftime('%m', 'now') = strftime('%m', 'now') ...
                 WHERE user_id = ? AND chat_id = ?", ...)
      c.execute("UPDATE stats SET wins = wins + 1 WHERE user_id = ?", (user_id,))
      conn.commit()
      conn.close()
  \<close>
  Within one statement \<open>'now'\<close> is one instant, so each comparison holds.
\<close>

definition ws_update_score :: "ws_world \<Rightarrow> int \<Rightarrow> int \<Rightarrow> ws_world" where
  "ws_update_score w uid chat_id =
     (let row = get_default (ws_scores w (uid, chat_id))
                  \<lparr>ws_today = 0, ws_week = 0, ws_month = 0, ws_all_time = 0\<rparr>
      in w\<lparr>ws_scores := (ws_scores w)((uid, chat_id) \<mapsto>
               row\<lparr>ws_all_time := ws_all_time row + 1, ws_today := ws_today row + 1,
                   ws_week := ws_week row + 1, ws_month := ws_month row + 1\<rparr>),
            ws_stats := (case ws_stats w uid of
                           None \<Rightarrow> ws_stats w
                         | Some s \<Rightarrow> (ws_stats w)(uid \<mapsto> s\<lparr>ws_wins := ws_wins s + 1\<rparr>))\<rparr>)"

text \<open>
  \<^verbatim>\<open>
  async def new_game(client, message):
      ...
      c.execute("SELECT word FROM games WHERE chat_id = ?", (chat_id,))
      if c.fetchone():
          await message.reply(LANGUAGES[lang]["game_in_progress"]); conn.close(); return
      settings = DEFAULT_SETTINGS.copy()
      word = random.choice(WORDS)
      c.execute("INSERT INTO games (chat_id, word, guesses, players, start_time, settings) "
                "VALUES (?, ?, ?, ?, ?, ?)", (chat_id, word, "", "", time.time(), str(settings)))
      c.execute("UPDATE bot_stats SET games_started = games_started + 1, last_updated = ? "
                "WHERE id = 1", (time.time(),))
      conn.commit()
      ...
  \<close>
\<close>

definition ws_new_game :: "ws_world \<Rightarrow> int \<Rightarrow> nat \<Rightarrow> real \<Rightarrow> ws_world \<times> (py_error + reply)" where
  "ws_new_game w chat_id r now =
     (if ws_games w chat_id \<noteq> None then (w, Inr GameInProgress)
      else
        (case random_choice r (ws_WORDS w) of
           Inl e \<Rightarrow> (w, Inl e)
         | Inr target \<Rightarrow>
             (let b = ws_bot_stats w
              in (w\<lparr>ws_games := (ws_games w)(chat_id \<mapsto>
                         \<lparr>ws_word = target, ws_guesses = [], ws_players = {},
                          ws_start_time = now, ws_settings = WS_DEFAULT_SETTINGS\<rparr>),
                    ws_bot_stats := b\<lparr>ws_games_started := ws_games_started b + 1,
                                      ws_last_updated := now\<rparr>\<rparr>,
                  Inr NewGameStarted))))"

text \<open>
  \<^verbatim>\<open>
  async def handle_guess(client, message):
      ...
      guess = message.text.lower().strip()
      now = time.time()
      if user_id in user_last_guess and now - user_last_guess[user_id] < RATE_LIMIT:
          await message.reply("Slow down! ..."); return
      user_last_guess[user_id] = now
      conn = get_db()
      c = conn.cursor()
      c.execute("SELECT word, guesses, players, settings FROM games WHERE chat_id = ?", ...)
      result = c.fetchone()
      if not result:
          conn.close(); return
      word, guesses, players, settings = result
      settings = eval(settings)
      guesses = eval(guesses) if guesses else []
      players = eval(players) if players else set()
      if len(guess) != settings["word_length"] or not guess.isalpha():
          await message.reply(LANGUAGES[lang]["invalid_guess"]...); conn.close(); return
      if guess not in WORDS:
          await message.reply(LANGUAGES[lang]["not_valid_word"]); conn.close(); return
      guesses.append((user_id, guess))
      players.add(user_id)
      c.execute("UPDATE games SET guesses = ?, players = ? WHERE chat_id = ?", ...)
      update_stats(user_id, 1)
      conn.commit()
      hint = get_hint(guess, word)
      if guess == word:
          update_score(user_id, chat_id)
          c.execute("DELETE FROM games WHERE chat_id = ?", (chat_id,))
          conn.commit(); conn.close()
          ... reply win; return
      if len(guesses) >= settings["max_guesses"]:
          c.execute("DELETE FROM games WHERE chat_id = ?", (chat_id,))
          conn.commit(); conn.close()
          await message.reply(LANGUAGES[lang]["game_over"].format(word=word)); return
      conn.close()
      await message.reply(LANGUAGES[lang]["guesses_left"].format(...))
  \<close>
  \<open>update_stats\<close> is called between the handler's \<open>UPDATE games\<close> and its commit, so
  it is called with \<open>busy\<close> true. When it raises, the handler's connection is dropped
  without a commit and its \<open>UPDATE\<close> is rolled back: the row of \<open>games\<close> is as before.
\<close>

definition ws_handle_guess ::
  "ws_world \<Rightarrow> int \<Rightarrow> int \<Rightarrow> string \<Rightarrow> real \<Rightarrow> real \<Rightarrow> ws_world \<times> (py_error + reply)" where
  "ws_handle_guess w chat_id uid text now t_stats =
     (let guess = py_strip (py_lower text) in
      if (case ws_user_last_guess w uid of None \<Rightarrow> False | Some t \<Rightarrow> now - t < RATE_LIMIT)
      then (w, Inr SlowDown)
      else
        (let w1 = w\<lparr>ws_user_last_guess := (ws_user_last_guess w)(uid \<mapsto> now)\<rparr> in
         case ws_games w1 chat_id of
           None \<Rightarrow> (w1, Inr NoReply)
         | Some row \<Rightarrow>
             (case ws_settings row ''word_length'' of
                None \<Rightarrow> (w1, Inl KeyError)
              | Some word_length \<Rightarrow>
                  if IntV (int (length guess)) \<noteq> word_length then (w1, Inr InvalidGuess)
                  else if \<not> py_isalpha guess then (w1, Inr InvalidGuess)
                  else if guess \<notin> set (ws_WORDS w1) then (w1, Inr NotValidWord)
                  else
                    (let row1 = row\<lparr>ws_guesses := ws_guesses row @ [(uid, guess)],
                                    ws_players := insert uid (ws_players row)\<rparr> in
                     case ws_update_stats True w1 uid 1 t_stats of
                       Inl e \<Rightarrow> (w1, Inl e)
                     | Inr w2 \<Rightarrow>
                         (let w3 = w2\<lparr>ws_games := (ws_games w2)(chat_id \<mapsto> row1)\<rparr> in
                          case get_hint guess (ws_word row1) of
                            Inl e \<Rightarrow> (w3, Inl e)
                          | Inr hint \<Rightarrow>
                              if guess = ws_word row1 then
                                (let w4 = ws_update_score w3 uid chat_id
                                 in (w4\<lparr>ws_games := (ws_games w4)(chat_id := None)\<rparr>,
                                     Inr (Win [])))
                              else
                                (case ws_settings row1 ''max_guesses'' of
                                   None \<Rightarrow> (w3, Inl KeyError)
                                 | Some (StrV v) \<Rightarrow> (w3, Inl TypeError)
                                 | Some (IntV max_guesses) \<Rightarrow>
                                     if int (length (ws_guesses row1)) \<ge> max_guesses
                                     then (w3\<lparr>ws_games := (ws_games w3)(chat_id := None)\<rparr>,
                                           Inr (GameOver (ws_word row1)))
                                     else (w3, Inr (GuessesLeft guess hint
                                             (max_guesses - int (length (ws_guesses row1)))))))))))"


subsection \<open>The checks a guess passes\<close>

text \<open>
  A guess passes the checks when it is not rate limited, the chat has a session, the
  player is not banned, the normalized text has the session's word length, is
  alphabetic, and is in the word list. \<^verbatim>\<open>wordseek.py\<close> has no ban list.
\<close>

definition passes_checks :: "world \<Rightarrow> int \<Rightarrow> int \<Rightarrow> string \<Rightarrow> real \<Rightarrow> bool" where
  "passes_checks w chat_id uid text now =
     (case rate_limit w uid now of
        None \<Rightarrow> False
      | Some w1 \<Rightarrow>
          (case games_coll w chat_id of
             None \<Rightarrow> False
           | Some game \<Rightarrow>
               uid \<notin> set (get_default (banned game) []) \<and>
               settings game ''word_length'' =
                 Some (IntV (int (length (py_strip (py_lower text))))) \<and>
               py_isalpha (py_strip (py_lower text)) \<and>
               py_strip (py_lower text) \<in> set (WORDS w)))"

definition ws_passes_checks :: "ws_world \<Rightarrow> int \<Rightarrow> int \<Rightarrow> string \<Rightarrow> real \<Rightarrow> bool" where
  "ws_passes_checks w chat_id uid text now =
     (case ws_user_last_guess w uid of
        Some t \<Rightarrow> if now - t < RATE_LIMIT then False
                  else (case ws_games w chat_id of
                          None \<Rightarrow> False
                        | Some row \<Rightarrow>
                            ws_settings row ''word_length'' =
                              Some (IntV (int (length (py_strip (py_lower text))))) \<and>
                            py_isalpha (py_strip (py_lower text)) \<and>
                            py_strip (py_lower text) \<in> set (ws_WORDS w))
      | None \<Rightarrow> (case ws_games w chat_id of
                   None \<Rightarrow> False
                 | Some row \<Rightarrow>
                     ws_settings row ''word_length'' =
                       Some (IntV (int (length (py_strip (py_lower text))))) \<and>
                     py_isalpha (py_strip (py_lower text)) \<and>
                     py_strip (py_lower text) \<in> set (ws_WORDS w)))"

subsection \<open>Notions used by the theorems\<close>

text \<open>
  An achievement qualifies on a stats snapshot when its condition holds and its id is not
  in the player's unlocked set.
\<close>

definition qualifies :: "stats_doc \<Rightarrow> achievement \<Rightarrow> bool" where
  "qualifies s a = (case a of (ach_id, name, condition) \<Rightarrow>
      condition s \<and> ach_id \<notin> set (get_default (achievements s) []))"

definition unlocked_ids :: "stats_doc \<Rightarrow> string set" where
  "unlocked_ids s = set (get_default (achievements s) [])"

fun unlock_all :: "world \<Rightarrow> int \<Rightarrow> string list \<Rightarrow> world" where
  "unlock_all w uid [] = w"
| "unlock_all w uid (i # ids) = unlock_all (unlock w uid i) uid ids"

text \<open>
  A process that has just started with the built-in word list and an empty cache, and
  no document in any collection.
\<close>

definition started :: world where
  "started = \<lparr>WORDS = fallback_words, redis_client = Some Map.empty,
              user_last_guess = Map.empty, games_coll = Map.empty, scores_coll = [],
              stats_coll = Map.empty, bot_stats_coll = None\<rparr>"

subsection \<open>Reading the ledger\<close>

text \<open>
  The counters as \<^verbatim>\<open>myscore_command\<close> reads them: \<open>user["scores"][str(chat_id)]\<close> and
  \<open>user["global"]\<close> of the player's document, zero where a key is missing.
\<close>

definition chat_count :: "world \<Rightarrow> int \<Rightarrow> int \<Rightarrow> string \<Rightarrow> int" where
  "chat_count w uid chat_id period =
     (case find_score uid (scores_coll w) of
        None \<Rightarrow> 0
      | Some d \<Rightarrow> get_default (get_default (scores d chat_id) Map.empty period) 0)"

definition global_count :: "world \<Rightarrow> int \<Rightarrow> string \<Rightarrow> int" where
  "global_count w uid period =
     (case find_score uid (scores_coll w) of
        None \<Rightarrow> 0
      | Some d \<Rightarrow> get_default (global d period) 0)"

text \<open>A clock that passes midnight of 31 December 2026 after the first read.\<close>

definition new_year :: "nat \<Rightarrow> datetime" where
  "new_year k = (if k = 0 then \<lparr>year = 2026, month = 12, day = 31\<rparr>
                 else \<lparr>year = 2027, month = 1, day = 1\<rparr>)"


subsection \<open>Sequences of messages\<close>

text \<open>
  The dispatcher calls one handler per message. \<open>run\<close> feeds a list of messages to the
  handlers, one after the other, and collects what each returns.
\<close>

datatype event =
    Guess int int string real real "nat \<Rightarrow> datetime"
  | NewGame int "string list" "string list option" nat real
  | Settings int chat_type "string list"

fun step :: "world \<Rightarrow> event \<Rightarrow> world \<times> (py_error + reply)" where
  "step w (Guess chat_id uid text now t_stats clock) =
     handle_guess w chat_id uid text now t_stats clock"
| "step w (NewGame chat_id args response r now) = new_game w chat_id args response r now"
| "step w (Settings chat_id ctype args) = update_settings w chat_id ctype args"

fun run :: "world \<Rightarrow> event list \<Rightarrow> world \<times> (py_error + reply) list" where
  "run w [] = (w, [])"
| "run w (e # es) =
     (case step w e of (w1, r) \<Rightarrow> (case run w1 es of (w2, rs) \<Rightarrow> (w2, r # rs)))"

subsection \<open>Example states\<close>

definition one_win :: world where
  "one_win = started\<lparr>stats_coll := [7 \<mapsto> \<lparr>games_played = Some 4, wins = Some 1,
                                           total_guesses = Some 4, achievements = None\<rparr>]\<rparr>"

definition noon :: "nat \<Rightarrow> datetime" where
  "noon k = \<lparr>year = 2026, month = 11, day = 3\<rparr>"

text \<open>
  A store that holds a session document for chat 7, as \<open>find_one\<close> returns it: the
  target \<open>apple\<close>, no guess yet, the default settings.
\<close>

definition apple_game :: game where
  "apple_game = \<lparr>word = Some ''apple'', guesses = Some [], players = Some [],
                 teams = Some Map.empty, start_time = Some 0,
                 settings = DEFAULT_SETTINGS, banned = Some []\<rparr>"

definition stored_session :: world where
  "stored_session = started\<lparr>games_coll := [7 \<mapsto> apple_game]\<rparr>"

text \<open>
  \<^verbatim>\<open>wordseek.py\<close> after start-up with the built-in word list, and thirty guesses of the
  word \<open>brave\<close> by the players 1 to 30.
\<close>

definition ws_started :: ws_world where
  "ws_started = \<lparr>ws_WORDS = fallback_words, ws_user_last_guess = Map.empty,
                 ws_games = Map.empty, ws_scores = Map.empty, ws_stats = Map.empty,
                 ws_bot_stats = \<lparr>ws_games_started = 0, ws_guesses_made = 0,
                                 ws_last_updated = 0\<rparr>\<rparr>"


text \<open>The database of \<^verbatim>\<open>wordseek.py\<close> after \<^verbatim>\<open>/new\<close> in chat 7 of the fresh database.\<close>

definition ws_session :: ws_world where
  "ws_session = fst (ws_new_game ws_started 7 0 0)"



definition player_name :: "int \<rightharpoonup> string" where
  "player_name u = Some ''player''"

section \<open>Theorems\<close>

lemmas string_defs = py_strip_def py_lower_def char_lower_def ascii_uppercase_def
  ascii_lowercase_def latin_uppercase_def latin_lowercase_def latin_other_letters_def
  letters_def whitespace_def py_isalpha_def

subsection \<open>The hint engine\<close>

text \<open>
  C9. \<open>hint("sassy", "sissy")\<close> is Correct, Absent, Correct, Correct, Correct: the
  \<open>a\<close> at position 1 matches no letter of the target.
\<close>

theorem get_hint_sassy_sissy:
  "get_hint ''sassy'' ''sissy'' = Inr [Correct, Absent, Correct, Correct, Correct]"
  by (simp add: get_hint_def)

text \<open>
  C1. \<open>get_hint\<close> is a single left-to-right pass: a letter that is out of place consumes
  the first unconsumed occurrence in the target even when that occurrence is matched
  exactly by a position further right. For the guess \<open>eagle\<close> against the target
  \<open>grape\<close> the only \<open>e\<close> of the target is credited twice (Present at position 0 and
  Correct at position 4), where the two-pass algorithm marks position 0 Absent.
\<close>

theorem get_hint_eagle_grape_credits_twice:
  "get_hint ''eagle'' ''grape'' = Inr [Present, Present, Present, Absent, Correct] \<and>
   hint_two_pass ''eagle'' ''grape'' = [Absent, Present, Present, Absent, Correct]"
  by (simp add: get_hint_def hint_two_pass_def unconsumed_pool_def)

text \<open>
  What holds of the first pass: for a guess and a target of equal length \<open>get_hint\<close>
  returns one mark per position, and a position is marked Correct exactly when the two
  letters agree.
\<close>

lemma hint_loop_correct_marks:
  "i + length guess \<le> length target \<Longrightarrow>
     \<exists>hint. hint_loop guess i target target_list = Inr hint \<and> length hint = length guess \<and>
       (\<forall>k < length guess. hint ! k = Correct \<longleftrightarrow> guess ! k = target ! (i + k))"
proof (induction guess arbitrary: i target_list)
  case Nil
  then show ?case by simp
next
  case (Cons c rest)
  have step: "\<exists>hint. hint_loop rest (Suc i) target tl = Inr hint \<and> length hint = length rest \<and>
       (\<forall>k < length rest. hint ! k = Correct \<longleftrightarrow> rest ! k = target ! (Suc i + k))" for tl
    using Cons.IH[of "Suc i" tl] Cons.prems by simp
  from Cons.prems have i: "i < length target" by simp
  show ?case
  proof (cases "c = target ! i")
    case True
    from step[of "target_list[i := None]"] obtain hint where
      h: "hint_loop rest (Suc i) target (target_list[i := None]) = Inr hint"
         "length hint = length rest"
         "\<forall>k < length rest. hint ! k = Correct \<longleftrightarrow> rest ! k = target ! (Suc i + k)"
      by blast
    have "\<forall>k < length (c # rest). (Correct # hint) ! k = Correct \<longleftrightarrow> (c # rest) ! k = target ! (i + k)"
      using h(3) True by (auto simp: nth_Cons split: nat.splits)
    with h(1,2) True i show ?thesis by simp
  next
    case False
    show ?thesis
    proof (cases "Some c \<in> set target_list")
      case True
      from step[of "target_list[py_index (Some c) target_list := None]"] obtain hint where
        h: "hint_loop rest (Suc i) target (target_list[py_index (Some c) target_list := None]) = Inr hint"
           "length hint = length rest"
           "\<forall>k < length rest. hint ! k = Correct \<longleftrightarrow> rest ! k = target ! (Suc i + k)"
        by blast
      have "\<forall>k < length (c # rest). (Present # hint) ! k = Correct \<longleftrightarrow> (c # rest) ! k = target ! (i + k)"
        using h(3) False by (auto simp: nth_Cons split: nat.splits)
      with h(1,2) True False i show ?thesis by simp
    next
      case nin: False
      from step[of target_list] obtain hint where
        h: "hint_loop rest (Suc i) target target_list = Inr hint"
           "length hint = length rest"
           "\<forall>k < length rest. hint ! k = Correct \<longleftrightarrow> rest ! k = target ! (Suc i + k)"
        by blast
      have "\<forall>k < length (c # rest). (Absent # hint) ! k = Correct \<longleftrightarrow> (c # rest) ! k = target ! (i + k)"
        using h(3) False by (auto simp: nth_Cons split: nat.splits)
      with h(1,2) nin False i show ?thesis by simp
    qed
  qed
qed

lemma get_hint_correct_marks:
  "length guess = length target \<Longrightarrow>
     \<exists>hint. get_hint guess target = Inr hint \<and> length hint = length guess \<and>
       (\<forall>k < length guess. hint ! k = Correct \<longleftrightarrow> guess ! k = target ! k)"
  using hint_loop_correct_marks[of 0 guess target "map Some target"]
  by (simp add: get_hint_def)

subsection \<open>Achievements\<close>

lemma achievements_loop_eq:
  "achievements_loop as s uid w acc =
     (unlock_all w uid (map fst (filter (qualifies s) as)),
      acc @ map (\<lambda>a. fst (snd a)) (filter (qualifies s) as))"
proof (induction as arbitrary: w acc)
  case Nil
  show ?case by simp
next
  case (Cons a as)
  show ?case
  proof (cases a)
    case (fields ach_id name condition)
    then show ?thesis by (simp add: Cons.IH qualifies_def)
  qed
qed

lemma find_stats_unlock:
  "find_stats (unlock w uid i) uid =
     (find_stats w uid)\<lparr>achievements := add_to_set (achievements (find_stats w uid)) i\<rparr>"
  by (simp add: unlock_def find_stats_def get_default_def)

lemma unlocked_ids_add:
  "unlocked_ids (s\<lparr>achievements := add_to_set (achievements s) i\<rparr>) = insert i (unlocked_ids s)"
  by (auto simp: unlocked_ids_def add_to_set_def get_default_def split: option.splits)

lemma unlock_all_ids:
  "unlocked_ids (find_stats (unlock_all w uid ids) uid) = unlocked_ids (find_stats w uid) \<union> set ids"
  by (induction ids arbitrary: w) (auto simp: find_stats_unlock unlocked_ids_add)

lemma unlock_all_counters:
  "wins (find_stats (unlock_all w uid ids) uid) = wins (find_stats w uid) \<and>
   total_guesses (find_stats (unlock_all w uid ids) uid) = total_guesses (find_stats w uid) \<and>
   games_played (find_stats (unlock_all w uid ids) uid) = games_played (find_stats w uid)"
  by (induction ids arbitrary: w) (auto simp: find_stats_unlock)

lemma condition_counters:
  "(ach_id, name, condition) \<in> set ACHIEVEMENTS \<Longrightarrow> wins s' = wins s \<Longrightarrow>
     total_guesses s' = total_guesses s \<Longrightarrow> condition s' = condition s"
  by (auto simp: ACHIEVEMENTS_def)

lemma none_qualifies_after:
  assumes "wins s' = wins s" "total_guesses s' = total_guesses s"
    and "unlocked_ids s' = unlocked_ids s \<union> set (map fst (filter (qualifies s) ACHIEVEMENTS))"
  shows "filter (qualifies s') ACHIEVEMENTS = []"
proof -
  have "\<not> qualifies s' a" if "a \<in> set ACHIEVEMENTS" for a
  proof (cases a)
    case (fields ach_id name condition)
    show ?thesis
    proof
      assume q: "qualifies s' a"
      then have c: "condition s" and n: "ach_id \<notin> unlocked_ids s'"
        using condition_counters[of ach_id name condition s' s] that assms(1,2) fields
        by (auto simp: qualifies_def unlocked_ids_def)
      from n assms(3) have "ach_id \<notin> unlocked_ids s" by simp
      with c have "qualifies s a" using fields by (simp add: qualifies_def unlocked_ids_def)
      with that have "ach_id \<in> set (map fst (filter (qualifies s) ACHIEVEMENTS))"
        using fields by force
      with n assms(3) show False by simp
    qed
  qed
  then show ?thesis by (simp add: filter_empty_conv)
qed

text \<open>
  C8. \<open>check_achievements\<close> returns the names of exactly the achievements that qualify
  on the player's current stats (condition true, id not yet unlocked), in the order of
  the registry, and adds their ids to the unlocked set; the counters are not touched. A
  second call right after it returns the empty list and changes nothing.
\<close>

theorem check_achievements_exact_idempotent:
  assumes "check_achievements w uid = (w', unlocked)"
  shows "unlocked = map (\<lambda>(ach_id, name, condition). name)
                      (filter (qualifies (find_stats w uid)) ACHIEVEMENTS) \<and>
         unlocked_ids (find_stats w' uid) =
           unlocked_ids (find_stats w uid) \<union>
           set (map fst (filter (qualifies (find_stats w uid)) ACHIEVEMENTS)) \<and>
         wins (find_stats w' uid) = wins (find_stats w uid) \<and>
         total_guesses (find_stats w' uid) = total_guesses (find_stats w uid) \<and>
         games_played (find_stats w' uid) = games_played (find_stats w uid) \<and>
         check_achievements w' uid = (w', [])"
proof -
  let ?s = "find_stats w uid"
  let ?ids = "map fst (filter (qualifies ?s) ACHIEVEMENTS)"
  from assms have w': "w' = unlock_all w uid ?ids"
    and u: "unlocked = map (\<lambda>a. fst (snd a)) (filter (qualifies ?s) ACHIEVEMENTS)"
    by (simp_all add: check_achievements_def achievements_loop_eq)
  have names: "(\<lambda>a::achievement. fst (snd a)) = (\<lambda>(ach_id, name, condition). name)"
    by auto
  have ids: "unlocked_ids (find_stats w' uid) = unlocked_ids ?s \<union> set ?ids"
    unfolding w' by (rule unlock_all_ids)
  have counters: "wins (find_stats w' uid) = wins ?s \<and>
      total_guesses (find_stats w' uid) = total_guesses ?s \<and>
      games_played (find_stats w' uid) = games_played ?s"
    unfolding w' by (rule unlock_all_counters)
  have "filter (qualifies (find_stats w' uid)) ACHIEVEMENTS = []"
    using none_qualifies_after[of "find_stats w' uid" ?s] ids counters by simp
  then have "check_achievements w' uid = (w', [])"
    by (simp add: check_achievements_def achievements_loop_eq)
  with u ids names counters show ?thesis by simp
qed

theorem check_achievements_first_win:
  "snd (check_achievements one_win 7) = [''First Win''] \<and>
   unlocked_ids (find_stats (fst (check_achievements one_win 7)) 7) = {''first_win''} \<and>
   check_achievements (fst (check_achievements one_win 7)) 7 =
     (fst (check_achievements one_win 7), [])"
  using check_achievements_exact_idempotent
          [of one_win 7 "fst (check_achievements one_win 7)" "snd (check_achievements one_win 7)"]
  by (simp add: one_win_def started_def find_stats_def get_default_def ACHIEVEMENTS_def
        qualifies_def unlocked_ids_def)
subsection \<open>The score ledger\<close>

lemma update_score_effect:
  "find_stats (update_score w uid chat_id mode team clock) uid =
     (find_stats w uid)\<lparr>wins := inc (wins (find_stats w uid)) 1\<rparr> \<and>
   (\<forall>u. u \<noteq> uid \<longrightarrow> find_stats (update_score w uid chat_id mode team clock) u = find_stats w u) \<and>
   games_coll (update_score w uid chat_id mode team clock) = games_coll w"
  by (simp add: update_score_def find_stats_def get_default_def)

lemma find_score_update_one:
  assumes "\<And>d. user_id (f d) = user_id d"
  shows "find_score uid (update_one_score uid f ds) =
     Some (f (case find_score uid ds of None \<Rightarrow> empty_scores uid | Some d \<Rightarrow> d))"
  by (induction ds) (auto simp: empty_scores_def assms)

lemma user_id_score_update: "user_id (score_update chat_id mode team clock d) = user_id d"
  by (simp add: score_update_def Let_def)

lemma find_score_update_score:
  "find_score uid (scores_coll (update_score w uid chat_id mode team clock)) =
     Some (score_update chat_id mode team clock
             (case find_score uid (scores_coll w) of None \<Rightarrow> empty_scores uid | Some d \<Rightarrow> d))"
  by (simp add: update_score_def find_score_update_one user_id_score_update)

lemma inc_buckets_get:
  "get_default (inc_buckets b d w m ''all_time'') 0 = get_default (b ''all_time'') 0 + 1 \<and>
   get_default (inc_buckets b d w m ''today'') 0 = get_default (b ''today'') 0 + d \<and>
   get_default (inc_buckets b d w m ''week'') 0 = get_default (b ''week'') 0 + w \<and>
   get_default (inc_buckets b d w m ''month'') 0 = get_default (b ''month'') 0 + m"
  by (simp add: inc_buckets_def inc_key_def get_default_def)

lemma chat_count_update_score:
  "chat_count (update_score w uid chat_id mode team clock) uid chat_id period =
     get_default (inc_buckets (get_default
        (scores (case find_score uid (scores_coll w) of None \<Rightarrow> empty_scores uid | Some d \<Rightarrow> d) chat_id)
        Map.empty) (same_day (clock 0) (clock 1)) (same_week (clock 0) (clock 2))
        (same_month (clock 0) (clock 3)) period) 0"
  by (simp add: chat_count_def find_score_update_score score_update_def Let_def get_default_def)

lemma global_count_update_score:
  "global_count (update_score w uid chat_id mode team clock) uid period =
     get_default (inc_buckets
        (global (case find_score uid (scores_coll w) of None \<Rightarrow> empty_scores uid | Some d \<Rightarrow> d))
        (same_day (clock 0) (clock 4)) (same_week (clock 0) (clock 5))
        (same_month (clock 0) (clock 6)) period) 0"
  by (simp add: global_count_def find_score_update_score score_update_def Let_def)

lemma chat_count_before:
  "chat_count w uid chat_id period =
     get_default (get_default
        (scores (case find_score uid (scores_coll w) of None \<Rightarrow> empty_scores uid | Some d \<Rightarrow> d) chat_id)
        Map.empty period) 0"
  by (simp add: chat_count_def empty_scores_def get_default_def split: option.splits)

lemma global_count_before:
  "global_count w uid period =
     get_default (global (case find_score uid (scores_coll w) of None \<Rightarrow> empty_scores uid | Some d \<Rightarrow> d) period) 0"
  by (simp add: global_count_def empty_scores_def get_default_def split: option.splits)

text \<open>
  A recorded win adds one to the all-time bucket of the chat-scoped counters of
  (player, chat) and of the player's global counters, and one to the player's \<open>wins\<close>.
  To each of the today, week and month buckets it adds one when the clock read taken for
  that bucket has the same date, ISO week number or month number as the read \<open>now\<close>
  taken first, and zero otherwise.
\<close>

lemma update_score_increments:
  "chat_count (update_score w uid chat_id mode team clock) uid chat_id ''all_time'' =
     chat_count w uid chat_id ''all_time'' + 1 \<and>
   chat_count (update_score w uid chat_id mode team clock) uid chat_id ''today'' =
     chat_count w uid chat_id ''today'' + same_day (clock 0) (clock 1) \<and>
   chat_count (update_score w uid chat_id mode team clock) uid chat_id ''week'' =
     chat_count w uid chat_id ''week'' + same_week (clock 0) (clock 2) \<and>
   chat_count (update_score w uid chat_id mode team clock) uid chat_id ''month'' =
     chat_count w uid chat_id ''month'' + same_month (clock 0) (clock 3) \<and>
   global_count (update_score w uid chat_id mode team clock) uid ''all_time'' =
     global_count w uid ''all_time'' + 1 \<and>
   global_count (update_score w uid chat_id mode team clock) uid ''today'' =
     global_count w uid ''today'' + same_day (clock 0) (clock 4) \<and>
   global_count (update_score w uid chat_id mode team clock) uid ''week'' =
     global_count w uid ''week'' + same_week (clock 0) (clock 5) \<and>
   global_count (update_score w uid chat_id mode team clock) uid ''month'' =
     global_count w uid ''month'' + same_month (clock 0) (clock 6) \<and>
   get_default (wins (find_stats (update_score w uid chat_id mode team clock) uid)) 0 =
     get_default (wins (find_stats w uid)) 0 + 1"
proof -
  have "get_default (wins (find_stats (update_score w uid chat_id mode team clock) uid)) 0 =
     get_default (wins (find_stats w uid)) 0 + 1"
    using update_score_effect[of w uid chat_id mode team clock]
    by (simp add: inc_def get_default_def)
  then show ?thesis
    unfolding chat_count_update_score global_count_update_score
    by (simp add: inc_buckets_get chat_count_before global_count_before)
qed

text \<open>When every clock read of the call falls on one date, all eight buckets grow by one.\<close>

lemma update_score_one_date:
  assumes "\<And>k. clock k = clock 0"
    and "period \<in> set [''all_time'', ''today'', ''week'', ''month'']"
  shows "chat_count (update_score w uid chat_id mode team clock) uid chat_id period =
           chat_count w uid chat_id period + 1 \<and>
         global_count (update_score w uid chat_id mode team clock) uid period =
           global_count w uid period + 1"
proof -
  have s: "same_day (clock 0) (clock k) = 1" "same_week (clock 0) (clock k) = 1"
    "same_month (clock 0) (clock k) = 1" for k
    using assms(1)[of k] by (simp_all add: same_day_def same_week_def same_month_def)
  from assms(2) update_score_increments[of w uid chat_id mode team clock] show ?thesis
    by (auto simp: s)
qed

text \<open>
  The relational variant compares \<open>date('now')\<close> with itself inside one statement and
  adds one to each of the four buckets of the row of (player, chat).
\<close>

lemma ws_update_score_increments:
  "map_option (\<lambda>row. (ws_all_time row, ws_today row, ws_week row, ws_month row))
     (ws_scores (ws_update_score w uid chat_id) (uid, chat_id)) =
   Some (case ws_scores w (uid, chat_id) of
           None \<Rightarrow> (1, 1, 1, 1)
         | Some row \<Rightarrow> (ws_all_time row + 1, ws_today row + 1, ws_week row + 1,
                        ws_month row + 1))"
  by (simp add: ws_update_score_def get_default_def Let_def split: option.splits)

text \<open>The ISO weeks of 31 December 2026, 1 January 2027 and 3 November 2026.\<close>

lemma first_days:
  "ymd2ord 2026 1 1 = 739617 \<and> ymd2ord 2027 1 1 = 739982 \<and> ymd2ord 2026 12 31 = 739981 \<and>
   ymd2ord 2026 11 3 = 739923"
  by (simp add: ymd2ord_def days_before_year_def days_before_month_def DAYS_BEFORE_MONTH_def
        is_leap_def)

lemma mondays: "isoweek1monday 2026 = 739614 \<and> isoweek1monday 2027 = 739985"
  by (simp add: isoweek1monday_def first_days Let_def)

lemma iso_weeks:
  "iso_week \<lparr>year = 2026, month = 12, day = 31\<rparr> = 53 \<and>
   iso_week \<lparr>year = 2027, month = 1, day = 1\<rparr> = 53 \<and>
   iso_week \<lparr>year = 2026, month = 11, day = 3\<rparr> = 45"
  by (simp add: iso_week_def first_days mondays Let_def)

lemma counts_started:
  "chat_count started uid chat_id period = 0 \<and> global_count started uid period = 0 \<and>
   get_default (wins (find_stats started uid)) 0 = 0"
  by (simp add: chat_count_def global_count_def started_def find_stats_def empty_stats_def
        get_default_def)

text \<open>
  C6. A win recorded by \<^verbatim>\<open>update_score\<close> of \<^verbatim>\<open>B.py\<close> while the year turns: \<open>now\<close> is
  read on 31 December 2026, the later reads of the clock fall on 1 January 2027 (both
  days are in ISO week 53). The all-time and week buckets of the chat-scoped and of the
  global counters grow by one and \<open>wins\<close> grows by one, but the today and month buckets
  of both do not grow: the win is counted in no day and in no month.
\<close>

theorem update_score_midnight_rollover:
  "date (new_year 0) = (2026, 12, 31) \<and> date (new_year 1) = (2027, 1, 1) \<and>
   iso_week (new_year 0) = 53 \<and> iso_week (new_year 1) = 53 \<and>
   chat_count (update_score started 1 7 (StrV ''standard'') None new_year) 1 7 ''all_time'' =
     chat_count started 1 7 ''all_time'' + 1 \<and>
   chat_count (update_score started 1 7 (StrV ''standard'') None new_year) 1 7 ''week'' =
     chat_count started 1 7 ''week'' + 1 \<and>
   chat_count (update_score started 1 7 (StrV ''standard'') None new_year) 1 7 ''today'' =
     chat_count started 1 7 ''today'' \<and>
   chat_count (update_score started 1 7 (StrV ''standard'') None new_year) 1 7 ''month'' =
     chat_count started 1 7 ''month'' \<and>
   global_count (update_score started 1 7 (StrV ''standard'') None new_year) 1 ''all_time'' =
     global_count started 1 ''all_time'' + 1 \<and>
   global_count (update_score started 1 7 (StrV ''standard'') None new_year) 1 ''week'' =
     global_count started 1 ''week'' + 1 \<and>
   global_count (update_score started 1 7 (StrV ''standard'') None new_year) 1 ''today'' =
     global_count started 1 ''today'' \<and>
   global_count (update_score started 1 7 (StrV ''standard'') None new_year) 1 ''month'' =
     global_count started 1 ''month'' \<and>
   get_default (wins (find_stats (update_score started 1 7 (StrV ''standard'') None new_year) 1)) 0 =
     get_default (wins (find_stats started 1)) 0 + 1"
proof -
  have clock: "same_day (new_year 0) (new_year k) = (if k = 0 then 1 else 0)"
    "same_week (new_year 0) (new_year k) = 1"
    "same_month (new_year 0) (new_year k) = (if k = 0 then 1 else 0)" for k
    by (simp_all add: same_day_def same_week_def same_month_def date_def new_year_def iso_weeks)
  have days: "date (new_year 0) = (2026, 12, 31) \<and> date (new_year 1) = (2027, 1, 1) \<and>
    iso_week (new_year 0) = 53 \<and> iso_week (new_year 1) = 53"
    by (simp add: date_def new_year_def iso_weeks)
  from update_score_increments[of started 1 7 "StrV ''standard''" None new_year] days
  show ?thesis by (simp add: clock)
qed

text \<open>A win recorded at noon of 3 November 2026 (ISO week 45): every bucket is 1.\<close>

lemma update_score_same_day:
  "iso_week (noon 0) = 45 \<and>
   chat_count (update_score started 1 7 (StrV ''standard'') None noon) 1 7 ''all_time'' = 1 \<and>
   chat_count (update_score started 1 7 (StrV ''standard'') None noon) 1 7 ''today'' = 1 \<and>
   chat_count (update_score started 1 7 (StrV ''standard'') None noon) 1 7 ''week'' = 1 \<and>
   chat_count (update_score started 1 7 (StrV ''standard'') None noon) 1 7 ''month'' = 1 \<and>
   global_count (update_score started 1 7 (StrV ''standard'') None noon) 1 ''all_time'' = 1 \<and>
   global_count (update_score started 1 7 (StrV ''standard'') None noon) 1 ''today'' = 1 \<and>
   global_count (update_score started 1 7 (StrV ''standard'') None noon) 1 ''week'' = 1 \<and>
   global_count (update_score started 1 7 (StrV ''standard'') None noon) 1 ''month'' = 1 \<and>
   get_default (wins (find_stats (update_score started 1 7 (StrV ''standard'') None noon) 1)) 0 = 1"
proof -
  have clock: "same_day (noon 0) (noon k) = 1" "same_week (noon 0) (noon k) = 1"
    "same_month (noon 0) (noon k) = 1" for k
    by (simp_all add: same_day_def same_week_def same_month_def noon_def)
  have week: "iso_week (noon 0) = 45" by (simp add: noon_def iso_weeks)
  from update_score_increments[of started 1 7 "StrV ''standard''" None noon] week
  show ?thesis by (simp add: clock counts_started)
qed

subsection \<open>The leaderboard\<close>














text \<open>
  The group scope: after a recorded win in chat 7 the chat-scoped counter is 1, and the
  leaderboard of scope \<open>scores\<close> for chat 7 is empty.
\<close>

lemma group_board_empty:
  "get_leaderboard (update_score started 1 7 (StrV ''standard'') None noon) player_name
      ''scores'' 7 ''all_time'' 1 5 = Inr ([], False, False) \<and>
   chat_count (update_score started 1 7 (StrV ''standard'') None noon) 1 7 ''all_time'' = 1"
  by (simp add: get_leaderboard_def aggregate_def ranking_def sort_desc_def matches_def
        field_at_def gt_zero_def count_documents_def chat_count_def update_score_def
        score_update_def inc_buckets_def inc_key_def empty_scores_def same_day_def
        same_week_def same_month_def started_def noon_def get_default_def Let_def)

subsection \<open>Creating a session\<close>

text \<open>
  \<^verbatim>\<open>new_game\<close> answers that a game is in progress exactly when the mode is valid and the
  collection holds a document for the chat, whatever the document holds.
\<close>

lemma new_game_in_progress:
  "snd (new_game w chat_id args response r now) = Inr GameInProgress \<longleftrightarrow>
     (case args of [] \<Rightarrow> ''standard'' | a # _ \<Rightarrow> a) \<in> set [''standard'', ''team'', ''competitive''] \<and>
     games_coll w chat_id \<noteq> None"
  by (auto simp: new_game_def insert_one_def Let_def DEFAULT_SETTINGS_def random_choice_def
           split: list.splits sum.splits)

text \<open>
  \<^verbatim>\<open>new_game\<close> never changes the state and never answers that a game has started: on
  every path that reaches \<open>insert_one\<close> the driver raises.
\<close>

lemma new_game_never_stores:
  "fst (new_game w chat_id args response r now) = w \<and>
   snd (new_game w chat_id args response r now) \<noteq> Inr NewGameStarted"
  by (simp add: new_game_def insert_one_def Let_def split: option.splits pyval.splits sum.splits)

text \<open>
  \<^verbatim>\<open>update_settings\<close> never writes: it is called for groups only, where \<^verbatim>\<open>is_admin\<close>
  answers \<open>False\<close>, so its reply is the admin-only notice (or none outside a group), and
  the branch with \<open>upsert=True\<close> is not reached.
\<close>

lemma update_settings_never_writes:
  "fst (update_settings w chat_id ctype args) = w \<and>
   snd (update_settings w chat_id ctype args) \<in> {Inr NoReply, Inr AdminOnly}"
  by (cases ctype) (simp_all add: update_settings_def is_admin_def)

text \<open>
  C4. In a chat with no document in \<open>games\<close> (no live session), with the built-in word
  list available, \<^verbatim>\<open>/new\<close> does not create a session: in each of the three modes
  \<open>insert_one\<close> raises \<open>InvalidDocument\<close> for the document holding Python sets, the
  exception leaves the handler, and the state is unchanged.
\<close>

theorem new_game_stores_nothing:
  "games_coll started 7 = None \<and>
   random_choice 0 (fetch_words None 5) = Inr ''apple'' \<and>
   new_game started 7 [] None 0 0 = (started, Inl InvalidDocument) \<and>
   new_game started 7 [''team''] None 0 0 = (started, Inl InvalidDocument) \<and>
   new_game started 7 [''competitive''] None 0 0 = (started, Inl InvalidDocument)"
  by (simp add: new_game_def insert_one_def started_def DEFAULT_SETTINGS_def fetch_words_def
        random_choice_def fallback_words_def)

text \<open>
  C5. When the word source answers with no word of five letters (an empty list, or
  entries that the filter drops), \<open>random.choice\<close> raises \<open>IndexError\<close> out of
  \<^verbatim>\<open>new_game\<close>; the state is unchanged, so no session is created.
\<close>

theorem new_game_no_words:
  "new_game started 7 [] (Some []) 0 0 = (started, Inl IndexError) \<and>
   new_game started 7 [] (Some [''hi'', ''abc12'']) 0 0 = (started, Inl IndexError)"
  by (simp add: new_game_def started_def DEFAULT_SETTINGS_def fetch_words_def random_choice_def
        string_defs)

subsection \<open>Guessing\<close>

text \<open>
  In \<^verbatim>\<open>B.py\<close>, a guess that reaches \<open>record_guess\<close> raises: \<open>game["players"]\<close> is absent
  (\<open>KeyError\<close>) or it is the list the store returns, which has no \<open>add\<close>
  (\<open>AttributeError\<close>). So \<^verbatim>\<open>handle_guess\<close> changes neither the \<open>games\<close>, \<open>stats\<close> nor
  \<open>scores\<close> collection and never answers with a hint, a win or the end of the game; a
  guess that passes the five checks raises.
\<close>

lemma rate_limit_frame:
  "rate_limit w uid now = Some w1 \<Longrightarrow>
     games_coll w1 = games_coll w \<and> stats_coll w1 = stats_coll w \<and>
     scores_coll w1 = scores_coll w \<and> WORDS w1 = WORDS w \<and> bot_stats_coll w1 = bot_stats_coll w"
  by (auto simp: rate_limit_def split: option.splits if_splits)

lemma assign_team_no_team:
  "assign_team g mode uid = Inr (team, g1) \<Longrightarrow> team = None \<and> g1 = g"
  by (auto simp: assign_team_def Let_def split: option.splits if_splits)

lemma record_guess_raises: "record_guess g uid guess = Inl KeyError \<or> record_guess g uid guess = Inl AttributeError"
  by (simp add: record_guess_def split: option.splits)

lemma record_guess_not_Inr: "(record_guess g uid guess = Inr g2) = False"
  using record_guess_raises[of g uid guess] by auto

lemma handle_guess_frame:
  "games_coll (fst (handle_guess w chat_id uid text now t_stats clock)) = games_coll w \<and>
   stats_coll (fst (handle_guess w chat_id uid text now t_stats clock)) = stats_coll w \<and>
   scores_coll (fst (handle_guess w chat_id uid text now t_stats clock)) = scores_coll w \<and>
   \<not> accepted (snd (handle_guess w chat_id uid text now t_stats clock))"
proof (cases "rate_limit w uid now")
  case None
  then show ?thesis by (simp add: handle_guess_def)
next
  case (Some w1)
  note fr = rate_limit_frame[OF Some]
  show ?thesis
  proof (cases "games_coll w1 chat_id")
    case None
    with Some fr show ?thesis by (simp add: handle_guess_def)
  next
    case g: (Some game)
    show ?thesis
      using Some g fr
      by (auto simp: handle_guess_def Let_def record_guess_not_Inr
               split: option.splits sum.splits)
  qed
qed

lemma handle_guess_raises:
  assumes "passes_checks w chat_id uid text now"
  shows "snd (handle_guess w chat_id uid text now t_stats clock) \<in> {Inl KeyError, Inl AttributeError}"
proof -
  from assms obtain w1 game where rl: "rate_limit w uid now = Some w1"
    and g: "games_coll w chat_id = Some game"
    and ok: "uid \<notin> set (get_default (banned game) [])"
      "settings game ''word_length'' = Some (IntV (int (length (py_strip (py_lower text)))))"
      "py_isalpha (py_strip (py_lower text))" "py_strip (py_lower text) \<in> set (WORDS w)"
    by (auto simp: passes_checks_def split: option.splits)
  note fr = rate_limit_frame[OF rl]
  have rg: "\<And>g1. record_guess g1 uid (py_strip (py_lower text)) = Inl KeyError \<or>
                  record_guess g1 uid (py_strip (py_lower text)) = Inl AttributeError"
    by (rule record_guess_raises)
  have at: "assign_team game mode uid = Inl KeyError \<or> assign_team game mode uid = Inl AttributeError
              \<or> assign_team game mode uid = Inr (None, game)" for mode
    by (auto simp: assign_team_def Let_def split: option.splits)
  show ?thesis
  proof (cases "settings game ''mode''")
    case None
    with rl g ok fr show ?thesis by (simp add: handle_guess_def)
  next
    case (Some mode)
    from at[of mode] rg[of game] show ?thesis
      using rl g ok fr Some by (auto simp: handle_guess_def Let_def)
  qed
qed

text \<open>
  In \<^verbatim>\<open>wordseek.py\<close>, a guess that passes the checks raises \<open>OperationalError\<close> in
  \<open>update_stats\<close>: the handler's \<open>UPDATE games\<close> is uncommitted when \<open>update_stats\<close> writes
  through its own connection. The handler's connection is dropped with the exception, so
  its update is rolled back, and no table changes.
\<close>

lemma ws_guess_raises:
  assumes "ws_passes_checks w chat_id uid text now"
  shows "snd (ws_handle_guess w chat_id uid text now t_stats) = Inl OperationalError"
  using assms
  by (auto simp: ws_passes_checks_def ws_handle_guess_def ws_update_stats_def Let_def
           split: option.splits if_splits)

lemma ws_guess_frame:
  "ws_games (fst (ws_handle_guess w chat_id uid text now t_stats)) = ws_games w \<and>
   ws_stats (fst (ws_handle_guess w chat_id uid text now t_stats)) = ws_stats w \<and>
   ws_scores (fst (ws_handle_guess w chat_id uid text now t_stats)) = ws_scores w \<and>
   ws_bot_stats (fst (ws_handle_guess w chat_id uid text now t_stats)) = ws_bot_stats w \<and>
   \<not> accepted (snd (ws_handle_guess w chat_id uid text now t_stats))"
  by (simp add: ws_handle_guess_def ws_update_stats_def Let_def split: option.splits)


text \<open>
  Over any sequence of \<^verbatim>\<open>/new\<close>, \<^verbatim>\<open>/settings\<close> and guesses in \<^verbatim>\<open>B.py\<close> the \<open>games\<close> and
  \<open>stats\<close> collections stay as they were and no guess is accepted.
\<close>

lemma step_frame:
  "games_coll (fst (step w e)) = games_coll w \<and> stats_coll (fst (step w e)) = stats_coll w \<and>
   \<not> accepted (snd (step w e))"
proof (cases e)
  case (Guess chat_id uid msg now t_stats clock)
  then show ?thesis using handle_guess_frame[of w chat_id uid msg now t_stats clock] by simp
next
  case (NewGame chat_id args response r now)
  then show ?thesis
    using new_game_never_stores[of w chat_id args response r now]
    by (auto simp: new_game_def insert_one_def Let_def split: option.splits pyval.splits sum.splits)
next
  case (Settings chat_id ctype args)
  then show ?thesis using update_settings_never_writes[of w chat_id ctype args] by auto
qed

lemma run_frame:
  "games_coll (fst (run w es)) = games_coll w \<and> stats_coll (fst (run w es)) = stats_coll w \<and>
   list_all (\<lambda>r. \<not> accepted r) (snd (run w es))"
proof (induction es arbitrary: w)
  case Nil
  show ?case by simp
next
  case (Cons e es)
  obtain w1 r where s: "step w e = (w1, r)" by (cases "step w e")
  from step_frame[of w e] s have fr: "games_coll w1 = games_coll w" "stats_coll w1 = stats_coll w"
    "\<not> accepted r" by simp_all
  from Cons.IH[of w1] fr s show ?case by (simp add: case_prod_unfold)
qed

text \<open>No guess is answered with a win or with the end of the game, in either variant.\<close>

lemma win_is_accepted: "is_win r \<or> is_game_over r \<Longrightarrow> accepted r"
  by (cases r rule: accepted.cases) simp_all

lemma handle_guess_never_resolves:
  "\<not> is_win (snd (handle_guess w chat_id uid text now t_stats clock)) \<and>
   \<not> is_game_over (snd (handle_guess w chat_id uid text now t_stats clock))"
  using handle_guess_frame win_is_accepted by blast

lemma ws_guess_never_resolves:
  "\<not> is_win (snd (ws_handle_guess w chat_id uid text now t_stats)) \<and>
   \<not> is_game_over (snd (ws_handle_guess w chat_id uid text now t_stats))"
  using ws_guess_frame win_is_accepted by blast

text \<open>
  When \<^verbatim>\<open>update_stats\<close> runs to its end it adds one to \<open>games_played\<close> and the number
  given to \<open>total_guesses\<close> of the player, in either variant.
\<close>

lemma update_stats_increments:
  "get_default (games_played (find_stats (update_stats w uid n t) uid)) 0 =
     get_default (games_played (find_stats w uid)) 0 + 1 \<and>
   get_default (total_guesses (find_stats (update_stats w uid n t) uid)) 0 =
     get_default (total_guesses (find_stats w uid)) 0 + n"
  by (simp add: update_stats_def find_stats_def Let_def inc_def get_default_def)

lemma ws_update_stats_increments:
  "map_option (\<lambda>w1. map_option (\<lambda>s. (ws_games_played s, ws_total_guesses s)) (ws_stats w1 uid))
     (case ws_update_stats False w uid n t of Inl e \<Rightarrow> None | Inr w1 \<Rightarrow> Some w1) =
   Some (Some (case ws_stats w uid of
                 None \<Rightarrow> (1, n)
               | Some s \<Rightarrow> (ws_games_played s + 1, ws_total_guesses s + n)))"
  by (simp add: ws_update_stats_def get_default_def Let_def split: option.splits)

lemma norm_apple: "py_strip (py_lower ''apple'') = ''apple''"
  by (simp add: string_defs)

lemma norm_brave: "py_strip (py_lower ''brave'') = ''brave''"
  by (simp add: string_defs)

lemma alpha_apple: "py_isalpha ''apple''"
  by (simp add: string_defs)

lemma alpha_brave: "py_isalpha ''brave''"
  by (simp add: string_defs)

lemma ws_session_eq:
  "ws_session = ws_started\<lparr>ws_games := [7 \<mapsto> \<lparr>ws_word = ''apple'', ws_guesses = [], ws_players = {},
                                  ws_start_time = 0, ws_settings = WS_DEFAULT_SETTINGS\<rparr>],
                 ws_bot_stats := \<lparr>ws_games_started = 1, ws_guesses_made = 0, ws_last_updated = 0\<rparr>\<rparr>"
  by (simp add: ws_session_def ws_new_game_def ws_started_def random_choice_def fallback_words_def)

lemmas word_facts = norm_apple norm_brave alpha_apple alpha_brave RATE_LIMIT_def
  fallback_words_def get_default_def Let_def

lemmas ws_step_defs = ws_session_eq ws_started_def ws_handle_guess_def ws_update_stats_def
  ws_passes_checks_def WS_DEFAULT_SETTINGS_def

lemmas step_defs = stored_session_def apple_game_def started_def handle_guess_def
  rate_limit_def DEFAULT_SETTINGS_def assign_team_def record_guess_def passes_checks_def

text \<open>
  C2. A guess that equals the target word does not win. In \<^verbatim>\<open>wordseek.py\<close>, after
  \<^verbatim>\<open>/new\<close> in chat 7 of the fresh database the target is \<open>apple\<close>; the guess \<open>apple\<close> of
  player 1 passes the rate-limit, length, alphabetic and dictionary checks, and the
  handler raises \<open>OperationalError\<close>: the session stays in \<open>games\<close> and no score is
  written. In \<^verbatim>\<open>B.py\<close>, on a session document for the target \<open>apple\<close> as the store
  returns it, the same guess passes the five checks and the handler raises
  \<open>AttributeError\<close>; the session stays in \<open>games\<close>.
\<close>

theorem correct_guess_raises:
  "snd (ws_new_game ws_started 7 0 0) = Inr NewGameStarted \<and>
   map_option ws_word (ws_games ws_session 7) = Some ''apple'' \<and>
   ws_passes_checks ws_session 7 1 ''apple'' 1 \<and>
   snd (ws_handle_guess ws_session 7 1 ''apple'' 1 1) = Inl OperationalError \<and>
   ws_games (fst (ws_handle_guess ws_session 7 1 ''apple'' 1 1)) = ws_games ws_session \<and>
   ws_scores (fst (ws_handle_guess ws_session 7 1 ''apple'' 1 1)) = ws_scores ws_session \<and>
   passes_checks stored_session 7 1 ''apple'' 1 \<and>
   snd (handle_guess stored_session 7 1 ''apple'' 1 1 noon) = Inl AttributeError \<and>
   games_coll (fst (handle_guess stored_session 7 1 ''apple'' 1 1 noon)) =
     games_coll stored_session"
  by (simp add: ws_step_defs step_defs word_facts ws_new_game_def random_choice_def)




text \<open>
  C10. A guess that passes the checks is not counted. In \<^verbatim>\<open>wordseek.py\<close>, the guess
  \<open>brave\<close> of player 1 on the session of chat 7 passes the checks, the handler raises
  \<open>OperationalError\<close> in \<open>update_stats\<close>, and player 1 has no row in \<open>stats\<close>. In
  \<^verbatim>\<open>B.py\<close>, on the stored session, the guess passes the five checks, the handler raises
  \<open>AttributeError\<close> before \<open>update_stats\<close> is called, and player 1 has no document in
  \<open>stats\<close>.
\<close>

theorem accepted_guess_not_counted:
  "ws_passes_checks ws_session 7 1 ''brave'' 1 \<and>
   snd (ws_handle_guess ws_session 7 1 ''brave'' 1 1) = Inl OperationalError \<and>
   ws_stats (fst (ws_handle_guess ws_session 7 1 ''brave'' 1 1)) 1 = None \<and>
   passes_checks stored_session 7 1 ''brave'' 1 \<and>
   snd (handle_guess stored_session 7 1 ''brave'' 1 1 noon) = Inl AttributeError \<and>
   stats_coll (fst (handle_guess stored_session 7 1 ''brave'' 1 1 noon)) 1 = None"
  by (simp add: ws_step_defs step_defs word_facts)


end
